theory Spec2Isabelle
  imports Complex_Main
begin

section \<open>Arrays\<close>

text \<open>
  One-dimensional float arrays are lists of reals, two-dimensional ones are lists of rows.
  The arithmetic is that of the real numbers. The elementwise operations pair the entries
  of arrays of the same shape; numpy raises on shapes that do not fit, so the theorems
  below state the shapes they rely on.
\<close>

type_synonym vec = "real list"
type_synonym mat = "real list list"

definition zeros_like :: "'a list \<Rightarrow> vec" where
  "zeros_like a = replicate (length a) 0"

definition ones_like :: "int list \<Rightarrow> int list" where
  "ones_like a = replicate (length a) 1"

definition zeros_like_mat :: "mat \<Rightarrow> mat" where
  "zeros_like_mat A = map (\<lambda>row. replicate (length row) 0) A"

definition vadd :: "vec \<Rightarrow> vec \<Rightarrow> vec" where
  "vadd a b = map2 (+) a b"

definition vsub :: "vec \<Rightarrow> vec \<Rightarrow> vec" where
  "vsub a b = map2 (-) a b"

definition madd :: "mat \<Rightarrow> mat \<Rightarrow> mat" where
  "madd A B = map2 vadd A B"

text \<open>\<^verbatim>\<open>(A.T * v).T\<close>: row \<open>r\<close> of \<open>A\<close> times \<open>v[r]\<close>.\<close>

definition row_scale :: "mat \<Rightarrow> vec \<Rightarrow> mat" where
  "row_scale A v = map2 (\<lambda>row c. map (\<lambda>x. x * c) row) A v"

text \<open>\<^verbatim>\<open>(A.T / v).T\<close>: row \<open>r\<close> of \<open>A\<close> divided by \<open>v[r]\<close>.\<close>

definition row_div :: "mat \<Rightarrow> vec \<Rightarrow> mat" where
  "row_div A v = map2 (\<lambda>row c. map (\<lambda>x. x / c) row) A v"

text \<open>\<^verbatim>\<open>range(n)\<close> for an integer \<open>n\<close>: empty when \<open>n \<le> 0\<close>.\<close>

definition py_range :: "int \<Rightarrow> int list" where
  "py_range n = [0..n - 1]"

section \<open>Errors and broadcasting\<close>

datatype error =
    NotImplementedError string
  | TypeError string
  | ValueError string
  | AttributeError string
  | IndexError string

text \<open>An offset or exposure is a scalar or a one-dimensional array.\<close>

datatype arr = Scalar real | Arr vec

text \<open>\<^verbatim>\<open>a + b\<close> for a one-dimensional \<open>a\<close>, with numpy's broadcasting of a scalar or of an
  array of length one; other shapes that differ raise.\<close>

definition add_arr :: "vec \<Rightarrow> arr \<Rightarrow> error + vec" where
  "add_arr a b =
     (case b of
        Scalar c \<Rightarrow> Inr (map (\<lambda>x. x + c) a)
      | Arr v \<Rightarrow>
          if length v = length a then Inr (map2 (+) a v)
          else if length v = 1 then Inr (map (\<lambda>x. x + hd v) a)
          else if length a = 1 then Inr (map (\<lambda>y. hd a + y) v)
          else Inl (ValueError ''operands could not be broadcast together''))"

definition add_arr2 :: "arr \<Rightarrow> arr \<Rightarrow> error + arr" where
  "add_arr2 a b =
     (case a of
        Scalar c \<Rightarrow>
          (case b of Scalar d \<Rightarrow> Inr (Scalar (c + d))
                   | Arr v \<Rightarrow> Inr (Arr (map (\<lambda>y. c + y) v)))
      | Arr u \<Rightarrow> map_sum id Arr (add_arr u b))"

definition arr_size :: "arr \<Rightarrow> nat" where
  "arr_size a = (case a of Scalar c \<Rightarrow> 1 | Arr v \<Rightarrow> length v)"

definition arr_map :: "(real \<Rightarrow> real) \<Rightarrow> arr \<Rightarrow> arr" where
  "arr_map f a = (case a of Scalar c \<Rightarrow> Scalar (f c) | Arr v \<Rightarrow> Arr (map f v))"

text \<open>The truth value of \<^verbatim>\<open>a == 0\<close> and of \<^verbatim>\<open>a != 0\<close> in a condition: defined for one
  element, an error for an array of several (``the truth value of an array with more than
  one element is ambiguous''), false for an empty array.\<close>

definition arr_is_zero :: "arr \<Rightarrow> error + bool" where
  "arr_is_zero a =
     (case a of
        Scalar c \<Rightarrow> Inr (c = 0)
      | Arr v \<Rightarrow>
          if length v = 1 then Inr (hd v = 0)
          else if v = [] then Inr False
          else Inl (ValueError ''truth value of an array is ambiguous''))"

definition arr_is_nonzero :: "arr \<Rightarrow> error + bool" where
  "arr_is_nonzero a =
     (case a of
        Scalar c \<Rightarrow> Inr (c \<noteq> 0)
      | Arr v \<Rightarrow>
          if length v = 1 then Inr (hd v \<noteq> 0)
          else if v = [] then Inr False
          else Inl (ValueError ''truth value of an array is ambiguous''))"

text \<open>\<^verbatim>\<open>exog.shape[1]\<close>, read off the first row.\<close>

definition ncols :: "mat \<Rightarrow> nat" where
  "ncols A = (case A of [] \<Rightarrow> 0 | row # _ \<Rightarrow> length row)"

text \<open>\<^verbatim>\<open>np.dot(A, v)\<close>: raises when the rows of \<open>A\<close> and \<open>v\<close> differ in length.\<close>

definition row_dot :: "vec \<Rightarrow> vec \<Rightarrow> real" where
  "row_dot row v = sum_list (map2 (*) row v)"

definition dot :: "mat \<Rightarrow> vec \<Rightarrow> error + vec" where
  "dot A v =
     (if list_all (\<lambda>row. length row = length v) A
      then Inr (map (\<lambda>row. row_dot row v) A)
      else Inl (ValueError ''shapes not aligned''))"

text \<open>Boolean-mask indexing \<^verbatim>\<open>a[mask]\<close>: the entries of \<open>a\<close> where the mask holds.\<close>

definition bool_index :: "'a list \<Rightarrow> bool list \<Rightarrow> 'a list" where
  "bool_index a keep = map fst (filter snd (zip a keep))"

section \<open>The base count distributions\<close>

text \<open>
  The base distributions (Poisson, NegativeBinomialP, GeneralizedPoisson) live in
  \<^verbatim>\<open>statsmodels.discrete.discrete_model\<close>; the truncated and censored models only call
  them. An instance of a base class is the class together with the arguments of its
  constructor; the class is the record of the methods that are called here. The method
  \<^verbatim>\<open>_prob_nonzero(mu, params)\<close> reads its parameters and may raise.
\<close>

record main_args =
  a_endog :: "int list"
  a_exog :: mat
  a_offset :: "arr option"
  a_exposure :: "arr option"
  a_p :: "real option"

record base_class =
  bc_loglikeobs :: "main_args \<Rightarrow> vec \<Rightarrow> vec"
  bc_score_obs :: "main_args \<Rightarrow> vec \<Rightarrow> mat"
  bc_prob_nonzero :: "main_args \<Rightarrow> vec \<Rightarrow> vec \<Rightarrow> error + vec"
  bc_predict_prob :: "main_args \<Rightarrow> vec \<Rightarrow> mat \<Rightarrow> arr \<Rightarrow> arr \<Rightarrow> int list option \<Rightarrow> mat"
  bc_parameterization :: "main_args \<Rightarrow> real option"
  bc_k_extra :: "main_args \<Rightarrow> nat"

section \<open>The optimizer\<close>

text \<open>The arguments of one call of the superclass \<^verbatim>\<open>fit\<close>; \<open>fc_method = None\<close> is a call
  that passes no \<^verbatim>\<open>method\<close>, so that the superclass default applies.\<close>

record fit_call =
  fc_start_params :: vec
  fc_method :: "string option"
  fc_maxiter :: int
  fc_disp :: int
  fc_full_output :: int
  fc_kwargs :: "(string \<times> string) list"

text \<open>The arguments of the \<^verbatim>\<open>fit\<close> methods of this module, which all have the same
  signature. The \<^verbatim>\<open>callback\<close> is left out: every \<^verbatim>\<open>fit\<close> here ignores the one it is given
  and passes \<^verbatim>\<open>lambda x: x\<close> on.\<close>

record fit_args =
  fa_start_params :: "vec option"
  fa_method :: string
  fa_maxiter :: int
  fa_full_output :: int
  fa_disp :: int
  fa_cov_type :: string
  fa_cov_kwds :: "(string \<times> string) list option"
  fa_use_t :: "bool option"
  fa_kwargs :: "(string \<times> string) list"

text \<open>The defaults: \<^verbatim>\<open>start_params=None, method='bfgs', maxiter=35, full_output=1, disp=1,
  cov_type='nonrobust', cov_kwds=None, use_t=None\<close>.\<close>

definition fit_defaults :: fit_args where
  "fit_defaults =
     \<lparr>fa_start_params = None, fa_method = ''bfgs'', fa_maxiter = 35, fa_full_output = 1,
      fa_disp = 1, fa_cov_type = ''nonrobust'', fa_cov_kwds = None, fa_use_t = None,
      fa_kwargs = []\<rparr>"

text \<open>What the optimizer returns, as far as this module reads it; \<open>res_k_extra = None\<close> is
  a result without the attribute \<^verbatim>\<open>k_extra\<close>.\<close>

record mle_result =
  res_params :: vec
  res_converged :: bool
  res_df_model :: int
  res_k_extra :: "int option"
  res_cov_params :: mat

record fit_result =
  fr_mlefit :: mle_result
  fr_cov_type :: string
  fr_use_t :: "bool option"
  fr_cov_kwds :: "(string \<times> string) list"

section \<open>GenericTruncated\<close>

text \<open>The attributes that \<^verbatim>\<open>CountModel.__init__\<close> leaves on the object (with
  \<^verbatim>\<open>missing='none'\<close> the arrays are stored as given; the exposure is stored logged).\<close>

record count_model =
  endog :: "int list"
  exog :: mat
  offset :: "arr option"
  exposure :: "arr option"

definition CountModel_init ::
  "int list \<Rightarrow> mat \<Rightarrow> arr option \<Rightarrow> arr option \<Rightarrow> count_model" where
  "CountModel_init endog0 exog0 offset0 exposure0 =
     \<lparr>endog = endog0, exog = exog0, offset = offset0,
      exposure = map_option (arr_map ln) exposure0\<rparr>"

record generic_trunc = count_model +
  trunc :: int
  truncation :: int

definition GenericTruncated_init ::
  "int list \<Rightarrow> mat \<Rightarrow> int \<Rightarrow> arr option \<Rightarrow> arr option \<Rightarrow> generic_trunc" where
  "GenericTruncated_init endog0 exog0 truncation0 offset0 exposure0 =
     (let self = CountModel_init endog0 exog0 offset0 exposure0;
          self = self\<lparr>exog := bool_index (exog self)
                          (map (\<lambda>y. y \<ge> truncation0 + 1) (endog self))\<rparr>;
          self = self\<lparr>endog := bool_index (endog self)
                          (map (\<lambda>y. y \<ge> truncation0 + 1) (endog self))\<rparr>
      in \<lparr>endog = endog self, exog = exog self, offset = offset self,
          exposure = exposure self, trunc = truncation0, truncation = truncation0\<rparr>)"

text \<open>The subclasses add the base instance \<^verbatim>\<open>model_main\<close> (its class and its constructor
  arguments) and the class of the truncated model itself, on which \<^verbatim>\<open>predict\<close> dispatches.\<close>

datatype trunc_class =
  TruncatedPoisson | TruncatedNegativeBinomialP | TruncatedGeneralizedPoisson

record trunc_model = generic_trunc +
  main_class :: base_class
  model_main :: main_args
  self_class :: trunc_class
  k_extra :: "nat option"

text \<open>\<^verbatim>\<open>self.model_main.__class__(np.ones_like(self.endog) * i, self.exog)\<close>\<close>

definition counterfactual :: "'a trunc_model_scheme \<Rightarrow> int \<Rightarrow> main_args" where
  "counterfactual self i =
     \<lparr>a_endog = map (\<lambda>one. one * i) (ones_like (endog self)), a_exog = exog self,
      a_offset = None, a_exposure = None, a_p = None\<rparr>"

definition loglikeobs :: "'a trunc_model_scheme \<Rightarrow> vec \<Rightarrow> vec" where
  "loglikeobs self params =
     (let llf_main = bc_loglikeobs (main_class self) (model_main self) params;
          pmf = foldl (\<lambda>pmf i.
                  let model = counterfactual self i
                  in vadd pmf (map exp (bc_loglikeobs (main_class self) model params)))
                (zeros_like (endog self)) (py_range (trunc self + 1));
          llf = vsub llf_main (map ln (map (\<lambda>p. 1 - p) pmf))
      in llf)"

definition loglike :: "'a trunc_model_scheme \<Rightarrow> vec \<Rightarrow> real" where
  "loglike self params = sum_list (loglikeobs self params)"

definition score_obs :: "'a trunc_model_scheme \<Rightarrow> vec \<Rightarrow> mat" where
  "score_obs self params =
     (let score_main = bc_score_obs (main_class self) (model_main self) params;
          (pmf, score_trunc) = foldl (\<lambda>(pmf, score_trunc) i.
                  let model = counterfactual self i;
                      pmf_i = map exp (bc_loglikeobs (main_class self) model params);
                      score_trunc = madd score_trunc
                        (row_scale (bc_score_obs (main_class self) model params) pmf_i);
                      pmf = vadd pmf pmf_i
                  in (pmf, score_trunc))
                (zeros_like (endog self), zeros_like_mat score_main)
                (py_range (trunc self + 1));
          dparams = madd score_main (row_div score_trunc (map (\<lambda>p. 1 - p) pmf))
      in dparams)"

text \<open>\<^verbatim>\<open>a.sum(0)\<close>: the column sums, one per parameter.\<close>

definition sum0 :: "mat \<Rightarrow> vec" where
  "sum0 A = map (\<lambda>j. sum_list (map (\<lambda>row. row ! j) A)) [0..<ncols A]"

definition score :: "'a trunc_model_scheme \<Rightarrow> vec \<Rightarrow> vec" where
  "score self params = sum0 (score_obs self params)"

text \<open>The start values of \<^verbatim>\<open>fit\<close> when none are given: the fit of the base distribution on
  the model's data, with offset and logged exposure added into one offset.\<close>

definition default_start_params ::
  "(main_args \<Rightarrow> vec) \<Rightarrow> 'a count_model_scheme \<Rightarrow> error + vec" where
  "default_start_params main_fit self =
     (case add_arr2 (case offset self of None \<Rightarrow> Scalar 0 | Some a \<Rightarrow> a)
                    (case exposure self of None \<Rightarrow> Scalar 0 | Some a \<Rightarrow> a) of
        Inl e \<Rightarrow> Inl e
      | Inr off \<Rightarrow>
          (case (if arr_size off = 1 then arr_is_zero off else Inr False) of
             Inl e \<Rightarrow> Inl e
           | Inr z \<Rightarrow>
               (let off' = (if z then None else Some off);
                    model = \<lparr>a_endog = endog self, a_exog = exog self, a_offset = off',
                             a_exposure = None, a_p = None\<rparr>
                in Inr (main_fit model))))"

text \<open>\<open>super_fit\<close> is the \<^verbatim>\<open>fit\<close> of the superclass (the optimizer), \<open>main_fit\<close> the
  parameters that the fit of the base class returns (\<^verbatim>\<open>model.fit(disp=0).params\<close>).\<close>

definition GenericTruncated_fit ::
  "('a trunc_model_scheme \<Rightarrow> fit_call \<Rightarrow> mle_result) \<Rightarrow> (base_class \<Rightarrow> main_args \<Rightarrow> vec) \<Rightarrow>
   'a trunc_model_scheme \<Rightarrow> fit_args \<Rightarrow> error + fit_result" where
  "GenericTruncated_fit super_fit main_fit self args =
     (case (case fa_start_params args of
              None \<Rightarrow> default_start_params (main_fit (main_class self)) self
            | Some sp \<Rightarrow> Inr sp) of
        Inl e \<Rightarrow> Inl e
      | Inr start_params \<Rightarrow>
          (let mlefit = super_fit self
                 \<lparr>fc_start_params = start_params, fc_method = Some (fa_method args),
                  fc_maxiter = fa_maxiter args, fc_disp = fa_disp args,
                  fc_full_output = fa_full_output args, fc_kwargs = fa_kwargs args\<rparr>;
               cov_kwds = (case fa_cov_kwds args of None \<Rightarrow> [] | Some kw \<Rightarrow> kw)
           in Inr \<lparr>fr_mlefit = mlefit, fr_cov_type = fa_cov_type args,
                   fr_use_t = fa_use_t args, fr_cov_kwds = cov_kwds\<rparr>))"

section \<open>The truncated models of the three base distributions\<close>

text \<open>
  What the module imports and inherits: the three base classes, the \<^verbatim>\<open>pmf\<close> of the two
  truncated distributions of \<^verbatim>\<open>statsmodels.distributions.discrete\<close>, and the methods
  \<^verbatim>\<open>_get_predict_arrays\<close> and \<^verbatim>\<open>predict\<close> of \<^verbatim>\<open>CountModel\<close>.
\<close>

record externals =
  Poisson :: base_class
  NegativeBinomialP :: base_class
  GeneralizedPoisson :: base_class
  truncatedpoisson_pmf :: "int \<Rightarrow> real \<Rightarrow> int \<Rightarrow> real"
  truncatednegbin_pmf :: "int \<Rightarrow> real \<Rightarrow> real \<Rightarrow> real \<Rightarrow> int \<Rightarrow> real"
  get_predict_arrays ::
    "count_model \<Rightarrow> mat option \<Rightarrow> arr option \<Rightarrow> arr option \<Rightarrow> mat \<times> arr \<times> arr"
  CountModel_predict :: "count_model \<Rightarrow> vec \<Rightarrow> mat option \<Rightarrow> error + vec"

text \<open>The constructors take the imported base class as their first argument.\<close>

definition as_count_model :: "'a count_model_scheme \<Rightarrow> count_model" where
  "as_count_model self =
     \<lparr>endog = endog self, exog = exog self, offset = offset self, exposure = exposure self\<rparr>"

definition TruncatedPoisson_init ::
  "base_class \<Rightarrow> int list \<Rightarrow> mat \<Rightarrow> arr option \<Rightarrow> arr option \<Rightarrow> int \<Rightarrow> trunc_model" where
  "TruncatedPoisson_init Poisson_cls endog0 exog0 offset0 exposure0 truncation0 =
     (let self = GenericTruncated_init endog0 exog0 truncation0 offset0 exposure0
      in \<lparr>endog = endog self, exog = exog self, offset = offset self,
          exposure = exposure self, trunc = trunc self, truncation = truncation self,
          main_class = Poisson_cls,
          model_main = \<lparr>a_endog = endog self, a_exog = exog self, a_offset = offset0,
                        a_exposure = exposure0, a_p = None\<rparr>,
          self_class = TruncatedPoisson, k_extra = None\<rparr>)"

definition TruncatedNegativeBinomialP_init ::
  "base_class \<Rightarrow> int list \<Rightarrow> mat \<Rightarrow> arr option \<Rightarrow> arr option \<Rightarrow> int \<Rightarrow> real \<Rightarrow> trunc_model" where
  "TruncatedNegativeBinomialP_init NegativeBinomialP_cls endog0 exog0 offset0 exposure0 truncation0 p =
     (let self = GenericTruncated_init endog0 exog0 truncation0 offset0 exposure0;
          model_main = \<lparr>a_endog = endog self, a_exog = exog self, a_offset = offset0,
                        a_exposure = exposure0, a_p = Some p\<rparr>
      in \<lparr>endog = endog self, exog = exog self, offset = offset self,
          exposure = exposure self, trunc = trunc self, truncation = truncation self,
          main_class = NegativeBinomialP_cls, model_main = model_main,
          self_class = TruncatedNegativeBinomialP,
          k_extra = Some (bc_k_extra NegativeBinomialP_cls model_main)\<rparr>)"

definition TruncatedGeneralizedPoisson_init ::
  "base_class \<Rightarrow> int list \<Rightarrow> mat \<Rightarrow> arr option \<Rightarrow> arr option \<Rightarrow> int \<Rightarrow> real \<Rightarrow> trunc_model" where
  "TruncatedGeneralizedPoisson_init GeneralizedPoisson_cls endog0 exog0 offset0 exposure0 truncation0 p =
     (let self = GenericTruncated_init endog0 exog0 truncation0 offset0 exposure0;
          model_main = \<lparr>a_endog = endog self, a_exog = exog self, a_offset = offset0,
                        a_exposure = exposure0, a_p = Some p\<rparr>
      in \<lparr>endog = endog self, exog = exog self, offset = offset self,
          exposure = exposure self, trunc = trunc self, truncation = truncation self,
          main_class = GeneralizedPoisson_cls, model_main = model_main,
          self_class = TruncatedGeneralizedPoisson,
          k_extra = Some (bc_k_extra GeneralizedPoisson_cls model_main)\<rparr>)"

subsection \<open>predict\<close>

text \<open>What \<^verbatim>\<open>predict\<close> returns: a vector (one entry per row), a matrix (rows by counts), the
  three-dimensional array that \<^verbatim>\<open>probs[:, None]\<close> makes of a matrix, or \<^verbatim>\<open>None\<close> where no
  branch returns.\<close>

datatype pred = PVec vec | PMat mat | PTensor "mat list" | PNone

text \<open>The first lines of every \<^verbatim>\<open>predict\<close> of a truncated model: the arrays, then
  \<^verbatim>\<open>fitted = np.dot(exog, params[:exog.shape[1]])\<close> and
  \<^verbatim>\<open>linpred = fitted + exposure + offset\<close>.\<close>

definition linpred_of :: "mat \<Rightarrow> vec \<Rightarrow> arr \<Rightarrow> arr \<Rightarrow> error + vec" where
  "linpred_of exog1 params offset1 exposure1 =
     (case dot exog1 (take (ncols exog1) params) of
        Inl e \<Rightarrow> Inl e
      | Inr fitted \<Rightarrow>
          (case add_arr fitted exposure1 of
             Inl e \<Rightarrow> Inl e
           | Inr fe \<Rightarrow> add_arr fe offset1))"

text \<open>\<^verbatim>\<open>np.arange(0, np.max(self.endog) + 1)\<close>, or the counts that were asked for.\<close>

definition counts_of :: "int list \<Rightarrow> int list option \<Rightarrow> error + int list" where
  "counts_of endog1 count_prob =
     (case count_prob of
        Some c \<Rightarrow> Inr c
      | None \<Rightarrow>
          if endog1 = [] then Inl (ValueError ''zero-size array to reduction operation maximum'')
          else Inr [0..Max (set endog1) + 1 - 1])"

text \<open>The truncated mean and variance for a truncation point above zero, from the
  probabilities of the counts \<open>0..truncation\<close> under the base distribution.\<close>

definition prob_tregion :: "mat \<Rightarrow> vec" where
  "prob_tregion probs = map sum_list probs"

definition mean_tregion :: "int \<Rightarrow> mat \<Rightarrow> vec" where
  "mean_tregion t probs = map (\<lambda>row. sum_list (map2 (\<lambda>c p. of_int c * p) [0..t] row)) probs"

definition mnc2_tregion :: "int \<Rightarrow> mat \<Rightarrow> vec" where
  "mnc2_tregion t probs =
     map (\<lambda>row. sum_list (map2 (\<lambda>c p. (of_int c)\<^sup>2 * p) [0..t] row)) probs"

definition TruncatedPoisson_predict ::
  "externals \<Rightarrow> 'a trunc_model_scheme \<Rightarrow> vec \<Rightarrow> mat option \<Rightarrow> arr option \<Rightarrow> arr option \<Rightarrow>
   string \<Rightarrow> int list option \<Rightarrow> error + pred" where
  "TruncatedPoisson_predict ext self params exog0 exposure0 offset0 which count_prob =
     (case get_predict_arrays ext (as_count_model self) exog0 offset0 exposure0 of
        (exog1, offset1, exposure1) \<Rightarrow>
     (case linpred_of exog1 params offset1 exposure1 of
        Inl e \<Rightarrow> Inl e
      | Inr linpred \<Rightarrow>
          if which = ''mean'' then
            (let mu = map exp linpred in
             if truncation self = 0 then
               Inr (PVec (map2 (/) mu (map (\<lambda>l. 1 - exp (- exp l)) linpred)))
             else if truncation self = -1 then Inr (PVec mu)
             else if truncation self > 0 then
               (let counts = [0..truncation self + 1 - 1];
                    probs = bc_predict_prob (main_class self) (model_main self) params exog1
                              (arr_map exp exposure1) offset1 (Some counts);
                    mean = map2 (/) (map2 (-) mu (mean_tregion (truncation self) probs))
                                    (map (\<lambda>q. 1 - q) (prob_tregion probs))
                in Inr (PVec mean))
             else Inr PNone)
          else if which = ''linear'' then Inr (PVec linpred)
          else if which = ''mean-main'' then Inr (PVec (map exp linpred))
          else if which = ''prob'' then
            (case counts_of (endog self) count_prob of
               Inl e \<Rightarrow> Inl e
             | Inr counts \<Rightarrow>
                 (case get_predict_arrays ext (as_count_model self) (Some exog1) (Some offset1)
                         (Some (arr_map exp exposure1)) of
                    (exog2, offset2, exposure2) \<Rightarrow>
                 (case linpred_of exog2 params offset2 exposure2 of
                    Inl e \<Rightarrow> Inl e
                  | Inr linpred2 \<Rightarrow>
                      (let mu = map exp linpred2
                       in Inr (PMat (map (\<lambda>m. map (\<lambda>c. truncatedpoisson_pmf ext c m (trunc self))
                                                 counts) mu))))))
          else if which = ''prob-main'' then
            (case counts_of (endog self) count_prob of
               Inl e \<Rightarrow> Inl e
             | Inr counts \<Rightarrow>
                 (let probs = bc_predict_prob (main_class self) (model_main self) params exog1
                                (arr_map exp exposure1) offset1 None
                  in Inr (PTensor (map (\<lambda>row. [row]) probs))))
          else if which = ''var'' then
            (let mu = map exp linpred;
                 counts = [0..truncation self + 1 - 1];
                 probs = bc_predict_prob (main_class self) (model_main self) params exog1
                           (arr_map exp exposure1) offset1 (Some counts);
                 mean = map2 (/) (map2 (-) mu (mean_tregion (truncation self) probs))
                                 (map (\<lambda>q. 1 - q) (prob_tregion probs));
                 mnc2 = map2 (/) (map2 (-) (map (\<lambda>m. m\<^sup>2 + m) mu)
                                           (mnc2_tregion (truncation self) probs))
                                 (map (\<lambda>q. 1 - q) (prob_tregion probs));
                 v = map2 (\<lambda>a b. a - b\<^sup>2) mnc2 mean
             in Inr (PVec v))
          else Inl (TypeError (''argument wich == '' @ which @ '' not handled''))))"

definition TruncatedNegativeBinomialP_predict ::
  "externals \<Rightarrow> 'a trunc_model_scheme \<Rightarrow> vec \<Rightarrow> mat option \<Rightarrow> arr option \<Rightarrow> arr option \<Rightarrow>
   string \<Rightarrow> int list option \<Rightarrow> error + pred" where
  "TruncatedNegativeBinomialP_predict ext self params exog0 exposure0 offset0 which count_prob =
     (case get_predict_arrays ext (as_count_model self) exog0 offset0 exposure0 of
        (exog1, offset1, exposure1) \<Rightarrow>
     (case linpred_of exog1 params offset1 exposure1 of
        Inl e \<Rightarrow> Inl e
      | Inr linpred \<Rightarrow>
     if params = [] then Inl (IndexError ''index -1 is out of bounds'')
     else
       (let alpha = last params in
          if which = ''mean'' then
            (let mu = map exp linpred in
             if truncation self = 0 then
               (case bc_parameterization (main_class self) (model_main self) of
                  None \<Rightarrow> Inl (AttributeError ''parameterization'')
                | Some p \<Rightarrow>
                    (let prob_zero = map (\<lambda>m. (1 + alpha * m powr (p - 1)) powr (- 1 / alpha)) mu
                     in Inr (PVec (map2 (/) mu (map (\<lambda>z. 1 - z) prob_zero)))))
             else if truncation self = -1 then Inr (PVec mu)
             else if truncation self > 0 then
               (let counts = [0..truncation self + 1 - 1];
                    probs = bc_predict_prob (main_class self) (model_main self) params exog1
                              (arr_map exp exposure1) offset1 (Some counts);
                    mean = map2 (/) (map2 (-) mu (mean_tregion (truncation self) probs))
                                    (map (\<lambda>q. 1 - q) (prob_tregion probs))
                in Inr (PVec mean))
             else Inr PNone)
          else if which = ''linear'' then Inr (PVec linpred)
          else if which = ''mean-main'' then Inr (PVec (map exp linpred))
          else if which = ''prob'' then
            (case counts_of (endog self) count_prob of
               Inl e \<Rightarrow> Inl e
             | Inr counts \<Rightarrow>
                 (case get_predict_arrays ext (as_count_model self) (Some exog1) (Some offset1)
                         (Some (arr_map exp exposure1)) of
                    (exog2, offset2, exposure2) \<Rightarrow>
                 (case linpred_of exog2 params offset2 exposure2 of
                    Inl e \<Rightarrow> Inl e
                  | Inr linpred2 \<Rightarrow>
                      (let mu = map exp linpred2 in
                       case bc_parameterization (main_class self) (model_main self) of
                         None \<Rightarrow> Inl (AttributeError ''parameterization'')
                       | Some p \<Rightarrow>
                           Inr (PMat (map (\<lambda>m. map (\<lambda>c. truncatednegbin_pmf ext c m
                                                     (last params) p (trunc self)) counts) mu))))))
          else if which = ''prob-main'' then
            (case counts_of (endog self) count_prob of
               Inl e \<Rightarrow> Inl e
             | Inr counts \<Rightarrow>
                 (let probs = bc_predict_prob (main_class self) (model_main self) params exog1
                                (arr_map exp exposure1) offset1 (Some counts)
                  in Inr (PTensor (map (\<lambda>row. [row]) probs))))
          else if which = ''var'' then
            (let mu = map exp linpred;
                 counts = [0..truncation self + 1 - 1];
                 probs = bc_predict_prob (main_class self) (model_main self) params exog1
                           (arr_map exp exposure1) offset1 (Some counts);
                 mean = map2 (/) (map2 (-) mu (mean_tregion (truncation self) probs))
                                 (map (\<lambda>q. 1 - q) (prob_tregion probs))
             in case bc_parameterization (main_class self) (model_main self) of
                  None \<Rightarrow> Inl (AttributeError ''parameterization'')
                | Some p \<Rightarrow>
                    (let vm = map (\<lambda>m. m * (1 + alpha * m powr (p - 1))) mu;
                         mnc2 = map2 (/) (map2 (-) (map2 (\<lambda>m w. m\<^sup>2 + w) mu vm)
                                                   (mnc2_tregion (truncation self) probs))
                                         (map (\<lambda>q. 1 - q) (prob_tregion probs));
                         v = map2 (\<lambda>a b. a - b\<^sup>2) mnc2 mean
                     in Inr (PVec v)))
          else Inl (TypeError (''argument wich == '' @ which @ '' not handled'')))))"

text \<open>The Generalized-Poisson model sets up its arrays itself.\<close>

definition GP_arrays ::
  "'a trunc_model_scheme \<Rightarrow> mat option \<Rightarrow> arr option \<Rightarrow> arr option \<Rightarrow> error + mat \<times> arr \<times> arr" where
  "GP_arrays self exog0 exposure0 offset0 =
     (let exog1 = (case exog0 of None \<Rightarrow> exog self | Some x \<Rightarrow> x) in
      case (case exposure0 of
              None \<Rightarrow> Inr (case exposure self of None \<Rightarrow> Scalar 0 | Some a \<Rightarrow> a)
            | Some ex \<Rightarrow>
                (case arr_is_nonzero ex of
                   Inl e \<Rightarrow> Inl e
                 | Inr nz \<Rightarrow> Inr (if nz then arr_map ln ex else ex))) of
        Inl e \<Rightarrow> Inl e
      | Inr exposure1 \<Rightarrow>
          (let offset1 = (case offset0 of
                            None \<Rightarrow> (case offset self of None \<Rightarrow> Scalar 0 | Some a \<Rightarrow> a)
                          | Some a \<Rightarrow> a)
           in Inr (exog1, offset1, exposure1)))"

definition TruncatedGeneralizedPoisson_predict ::
  "'a trunc_model_scheme \<Rightarrow> vec \<Rightarrow> mat option \<Rightarrow> arr option \<Rightarrow> arr option \<Rightarrow>
   string \<Rightarrow> int list option \<Rightarrow> error + pred" where
  "TruncatedGeneralizedPoisson_predict self params exog0 exposure0 offset0 which count_prob =
     (case GP_arrays self exog0 exposure0 offset0 of
        Inl e \<Rightarrow> Inl e
      | Inr (exog1, offset1, exposure1) \<Rightarrow>
     (case linpred_of exog1 params offset1 exposure1 of
        Inl e \<Rightarrow> Inl e
      | Inr linpred \<Rightarrow>
          if which = ''mean'' then
            (if truncation self = 0 then
               Inr (PVec (map2 (/) (map exp linpred) (map (\<lambda>l. 1 - exp (- exp l)) linpred)))
             else if truncation self = -1 then Inr (PVec (map exp linpred))
             else if truncation self > 0 then
               Inl (NotImplementedError ''conditional mean not implemented'')
             else Inr PNone)
          else if which = ''linear'' then Inr (PVec linpred)
          else if which = ''mean-main'' then Inr (PVec (map exp linpred))
          else if which = ''prob'' then
            (case counts_of (endog self) count_prob of
               Inl e \<Rightarrow> Inl e
             | Inr counts \<Rightarrow>
                 (case GP_arrays self (Some exog1) (Some exposure1) (Some offset1) of
                    Inl e \<Rightarrow> Inl e
                  | Inr (exog2, offset2, exposure2) \<Rightarrow>
                 (case linpred_of exog2 params offset2 exposure2 of
                    Inl e \<Rightarrow> Inl e
                  | Inr linpred2 \<Rightarrow> Inl (AttributeError ''parametrization''))))
          else Inl (TypeError (''argument wich == '' @ which @ '' not handled''))))"

text \<open>\<^verbatim>\<open>model.predict(...)\<close> on a truncated model dispatches on its class.\<close>

definition trunc_predict ::
  "externals \<Rightarrow> 'a trunc_model_scheme \<Rightarrow> vec \<Rightarrow> mat option \<Rightarrow> arr option \<Rightarrow> arr option \<Rightarrow>
   string \<Rightarrow> int list option \<Rightarrow> error + pred" where
  "trunc_predict ext self params exog0 exposure0 offset0 which count_prob =
     (case self_class self of
        TruncatedPoisson \<Rightarrow>
          TruncatedPoisson_predict ext self params exog0 exposure0 offset0 which count_prob
      | TruncatedNegativeBinomialP \<Rightarrow>
          TruncatedNegativeBinomialP_predict ext self params exog0 exposure0 offset0 which
            count_prob
      | TruncatedGeneralizedPoisson \<Rightarrow>
          TruncatedGeneralizedPoisson_predict self params exog0 exposure0 offset0 which
            count_prob)"

section \<open>The remaining methods of GenericTruncated\<close>

text \<open>\<^verbatim>\<open>hessian\<close> differentiates the log-likelihood numerically; \<open>approx_hess\<close> is the routine of
  \<^verbatim>\<open>statsmodels.tools.numdiff\<close>.\<close>

definition hessian ::
  "(vec \<Rightarrow> (vec \<Rightarrow> real) \<Rightarrow> mat) \<Rightarrow> 'a trunc_model_scheme \<Rightarrow> vec \<Rightarrow> mat" where
  "hessian approx_hess self params = approx_hess params (loglike self)"

datatype maxiter_arg = Defined_by_method | Maxiter int

record reg_call =
  rc_start_params :: "vec option"
  rc_method :: string
  rc_maxiter :: maxiter_arg
  rc_full_output :: int
  rc_disp :: int
  rc_alpha :: arr
  rc_trim_mode :: string
  rc_auto_trim_tol :: real
  rc_size_trim_tol :: real
  rc_qc_tol :: real
  rc_kwargs :: "(string \<times> string) list"

text \<open>\<open>super_fit_regularized\<close> is the regularized fit of the superclass,
  \<open>main_fit_regularized\<close> the parameters that the regularized fit of the base class
  returns.\<close>

definition GenericTruncated_fit_regularized ::
  "('a trunc_model_scheme \<Rightarrow> reg_call \<Rightarrow> mle_result) \<Rightarrow>
   (base_class \<Rightarrow> main_args \<Rightarrow> reg_call \<Rightarrow> vec) \<Rightarrow>
   'a trunc_model_scheme \<Rightarrow> vec option \<Rightarrow> string \<Rightarrow> maxiter_arg \<Rightarrow> int \<Rightarrow> int \<Rightarrow> arr \<Rightarrow>
   string \<Rightarrow> real \<Rightarrow> real \<Rightarrow> real \<Rightarrow> (string \<times> string) list \<Rightarrow> error + mle_result" where
  "GenericTruncated_fit_regularized super_fit_regularized main_fit_regularized self start_params
       method maxiter full_output disp alpha0 trim_mode auto_trim_tol size_trim_tol qc_tol
       kwargs =
     (case (if arr_size alpha0 = 1 then arr_is_nonzero alpha0 else Inr False) of
        Inl e \<Rightarrow> Inl e
      | Inr widen \<Rightarrow>
     (let alpha = (if widen
                   then Arr (replicate (ncols (exog self))
                               (case alpha0 of Scalar c \<Rightarrow> c | Arr v \<Rightarrow> hd v))
                   else alpha0);
          alpha_p = alpha
      in case (case start_params of
                 Some sp \<Rightarrow> Inr sp
               | None \<Rightarrow>
                   default_start_params
                     (\<lambda>model. main_fit_regularized (main_class self) model
                        \<lparr>rc_start_params = start_params, rc_method = method,
                         rc_maxiter = maxiter, rc_full_output = full_output, rc_disp = 0,
                         rc_alpha = alpha_p, rc_trim_mode = trim_mode,
                         rc_auto_trim_tol = auto_trim_tol, rc_size_trim_tol = size_trim_tol,
                         rc_qc_tol = qc_tol, rc_kwargs = kwargs\<rparr>)
                     self) of
        Inl e \<Rightarrow> Inl e
      | Inr start_params \<Rightarrow>
          (let cntfit = super_fit_regularized self
                 \<lparr>rc_start_params = Some start_params, rc_method = method,
                  rc_maxiter = maxiter, rc_full_output = full_output, rc_disp = disp,
                  rc_alpha = alpha, rc_trim_mode = trim_mode,
                  rc_auto_trim_tol = auto_trim_tol, rc_size_trim_tol = size_trim_tol,
                  rc_qc_tol = qc_tol, rc_kwargs = kwargs\<rparr>
           in if method \<in> set [''l1'', ''l1_cvxopt_cp''] then Inr cntfit
              else Inl (TypeError (''argument method == '' @ method
                                   @ '', which is not handled'')))))"

subsection \<open>Calling the methods one after another\<close>

text \<open>
  A call of a method of a truncated model, with its arguments, and what it returns. None of
  the methods assigns to an attribute of the model, so a call returns its value and leaves
  the model as it found it; \<open>trunc_call\<close> makes the model after the call explicit.
\<close>

record trunc_env =
  env_ext :: externals
  env_super_fit :: "trunc_model \<Rightarrow> fit_call \<Rightarrow> mle_result"
  env_main_fit :: "base_class \<Rightarrow> main_args \<Rightarrow> vec"
  env_super_fit_regularized :: "trunc_model \<Rightarrow> reg_call \<Rightarrow> mle_result"
  env_main_fit_regularized :: "base_class \<Rightarrow> main_args \<Rightarrow> reg_call \<Rightarrow> vec"
  env_approx_hess :: "vec \<Rightarrow> (vec \<Rightarrow> real) \<Rightarrow> mat"

datatype trunc_op =
    Call_loglike vec
  | Call_loglikeobs vec
  | Call_score_obs vec
  | Call_score vec
  | Call_hessian vec
  | Call_fit fit_args
  | Call_fit_regularized "vec option" string maxiter_arg int int arr string real real real
      "(string \<times> string) list"
  | Call_predict vec "mat option" "arr option" "arr option" string "int list option"

datatype op_value =
    Val_real real
  | Val_vec vec
  | Val_mat mat
  | Val_fit "error + fit_result"
  | Val_fit_regularized "error + mle_result"
  | Val_pred "error + pred"

fun trunc_call :: "trunc_env \<Rightarrow> trunc_model \<Rightarrow> trunc_op \<Rightarrow> op_value \<times> trunc_model" where
  "trunc_call env self (Call_loglike params) = (Val_real (loglike self params), self)"
| "trunc_call env self (Call_loglikeobs params) = (Val_vec (loglikeobs self params), self)"
| "trunc_call env self (Call_score_obs params) = (Val_mat (score_obs self params), self)"
| "trunc_call env self (Call_score params) = (Val_vec (score self params), self)"
| "trunc_call env self (Call_hessian params) =
     (Val_mat (hessian (env_approx_hess env) self params), self)"
| "trunc_call env self (Call_fit args) =
     (Val_fit (GenericTruncated_fit (env_super_fit env) (env_main_fit env) self args), self)"
| "trunc_call env self
     (Call_fit_regularized start_params method maxiter full_output disp alpha trim_mode
        auto_trim_tol size_trim_tol qc_tol kwargs) =
     (Val_fit_regularized
        (GenericTruncated_fit_regularized (env_super_fit_regularized env)
           (env_main_fit_regularized env) self start_params method maxiter full_output disp
           alpha trim_mode auto_trim_tol size_trim_tol qc_tol kwargs), self)"
| "trunc_call env self (Call_predict params exog0 exposure0 offset0 which count_prob) =
     (Val_pred (trunc_predict (env_ext env) self params exog0 exposure0 offset0 which
                  count_prob), self)"

fun trunc_calls :: "trunc_env \<Rightarrow> trunc_model \<Rightarrow> trunc_op list \<Rightarrow> trunc_model" where
  "trunc_calls env self [] = self"
| "trunc_calls env self (c # cs) = trunc_calls env (snd (trunc_call env self c)) cs"

section \<open>GenericCensored\<close>

text \<open>\<^verbatim>\<open>np.nonzero(b)[0]\<close>: the indices at which \<open>b\<close> holds, in increasing order.\<close>

definition np_nonzero :: "bool list \<Rightarrow> nat list" where
  "np_nonzero b = filter (\<lambda>i. b ! i) [0..<length b]"

text \<open>Indexing with an array of indices, \<^verbatim>\<open>a[idx]\<close>: raises for an index out of range.\<close>

definition fancy_index :: "'a list \<Rightarrow> nat list \<Rightarrow> error + 'a list" where
  "fancy_index a idx =
     (if list_all (\<lambda>i. i < length a) idx then Inr (map (\<lambda>i. a ! i) idx)
      else Inl (IndexError ''index is out of bounds''))"

record generic_censored = count_model +
  zero_idx :: "nat list"
  nonzero_idx :: "nat list"

definition GenericCensored_init ::
  "int list \<Rightarrow> mat \<Rightarrow> arr option \<Rightarrow> arr option \<Rightarrow> generic_censored" where
  "GenericCensored_init endog0 exog0 offset0 exposure0 =
     (let zero_idx0 = np_nonzero (map (\<lambda>y. y = 0) endog0);
          nonzero_idx0 = np_nonzero (map (\<lambda>y. y \<noteq> 0) endog0);
          self = CountModel_init endog0 exog0 offset0 exposure0
      in \<lparr>endog = endog self, exog = exog self, offset = offset self,
          exposure = exposure self, zero_idx = zero_idx0, nonzero_idx = nonzero_idx0\<rparr>)"

text \<open>The base instance of a censored model is \<^verbatim>\<open>self.model_main\<close> too; the record fields
  are named \<open>cens_main_class\<close> and \<open>cens_model_main\<close> to keep them apart from those of the
  truncated model.\<close>

record censored_model = generic_censored +
  cens_main_class :: base_class
  cens_model_main :: main_args

text \<open>\<^verbatim>\<open>model(np.zeros_like(self.endog), self.exog)\<close>, with \<^verbatim>\<open>p=p\<close> where the constructor
  passes it on.\<close>

definition censored_with ::
  "base_class \<Rightarrow> real option \<Rightarrow> generic_censored \<Rightarrow> censored_model" where
  "censored_with cls p self =
     \<lparr>endog = endog self, exog = exog self, offset = offset self,
      exposure = exposure self, zero_idx = zero_idx self, nonzero_idx = nonzero_idx self,
      cens_main_class = cls,
      cens_model_main = \<lparr>a_endog = map (\<lambda>y. 0) (endog self), a_exog = exog self,
                         a_offset = None, a_exposure = None, a_p = p\<rparr>\<rparr>"

definition CensoredPoisson_init ::
  "base_class \<Rightarrow> int list \<Rightarrow> mat \<Rightarrow> arr option \<Rightarrow> arr option \<Rightarrow> censored_model" where
  "CensoredPoisson_init Poisson_cls endog0 exog0 offset0 exposure0 =
     censored_with Poisson_cls None (GenericCensored_init endog0 exog0 offset0 exposure0)"

definition CensoredGeneralizedPoisson_init ::
  "base_class \<Rightarrow> int list \<Rightarrow> mat \<Rightarrow> arr option \<Rightarrow> real \<Rightarrow> arr option \<Rightarrow> censored_model" where
  "CensoredGeneralizedPoisson_init GeneralizedPoisson_cls endog0 exog0 offset0 p exposure0 =
     censored_with GeneralizedPoisson_cls None
       (GenericCensored_init endog0 exog0 offset0 exposure0)"

definition CensoredNegativeBinomialP_init ::
  "base_class \<Rightarrow> int list \<Rightarrow> mat \<Rightarrow> arr option \<Rightarrow> real \<Rightarrow> arr option \<Rightarrow> censored_model" where
  "CensoredNegativeBinomialP_init NegativeBinomialP_cls endog0 exog0 offset0 p exposure0 =
     censored_with NegativeBinomialP_cls (Some p)
       (GenericCensored_init endog0 exog0 offset0 exposure0)"

definition Censored_init ::
  "int list \<Rightarrow> mat \<Rightarrow> base_class \<Rightarrow> arr option \<Rightarrow> arr option \<Rightarrow> censored_model" where
  "Censored_init endog0 exog0 model offset0 exposure0 =
     censored_with model None (GenericCensored_init endog0 exog0 offset0 exposure0)"

definition censored_loglikeobs :: "'a censored_model_scheme \<Rightarrow> vec \<Rightarrow> error + vec" where
  "censored_loglikeobs self params =
     (let llf_main = bc_loglikeobs (cens_main_class self) (cens_model_main self) params in
      case fancy_index llf_main (zero_idx self) of
        Inl e \<Rightarrow> Inl e
      | Inr llf_zero \<Rightarrow>
          (case fancy_index llf_main (nonzero_idx self) of
             Inl e \<Rightarrow> Inl e
           | Inr llf_nonzero \<Rightarrow>
               Inr (llf_zero @ map ln (map (\<lambda>l. 1 - exp l) llf_nonzero))))"

definition censored_loglike :: "'a censored_model_scheme \<Rightarrow> vec \<Rightarrow> error + real" where
  "censored_loglike self params = map_sum id sum_list (censored_loglikeobs self params)"

definition censored_score_obs :: "'a censored_model_scheme \<Rightarrow> vec \<Rightarrow> error + mat" where
  "censored_score_obs self params =
     (let score_main = bc_score_obs (cens_main_class self) (cens_model_main self) params;
          llf_main = bc_loglikeobs (cens_main_class self) (cens_model_main self) params in
      case fancy_index score_main (zero_idx self) of
        Inl e \<Rightarrow> Inl e
      | Inr score_zero \<Rightarrow>
          (case fancy_index score_main (nonzero_idx self) of
             Inl e \<Rightarrow> Inl e
           | Inr score_nonzero \<Rightarrow>
               (case fancy_index llf_main (nonzero_idx self) of
                  Inl e \<Rightarrow> Inl e
                | Inr llf_nonzero \<Rightarrow>
                    Inr (score_zero @
                         row_div (row_scale score_nonzero (map (\<lambda>l. - exp l) llf_nonzero))
                                 (map (\<lambda>l. 1 - exp l) llf_nonzero)))))"

definition censored_score :: "'a censored_model_scheme \<Rightarrow> vec \<Rightarrow> error + vec" where
  "censored_score self params = map_sum id sum0 (censored_score_obs self params)"

definition GenericCensored_fit ::
  "('a censored_model_scheme \<Rightarrow> fit_call \<Rightarrow> mle_result) \<Rightarrow> (base_class \<Rightarrow> main_args \<Rightarrow> vec) \<Rightarrow>
   'a censored_model_scheme \<Rightarrow> fit_args \<Rightarrow> error + fit_result" where
  "GenericCensored_fit super_fit main_fit self args =
     (case (case fa_start_params args of
              None \<Rightarrow> default_start_params (main_fit (cens_main_class self)) self
            | Some sp \<Rightarrow> Inr sp) of
        Inl e \<Rightarrow> Inl e
      | Inr start_params \<Rightarrow>
          (let mlefit = super_fit self
                 \<lparr>fc_start_params = start_params, fc_method = None,
                  fc_maxiter = fa_maxiter args, fc_disp = fa_disp args,
                  fc_full_output = fa_full_output args, fc_kwargs = fa_kwargs args\<rparr>;
               cov_kwds = (case fa_cov_kwds args of None \<Rightarrow> [] | Some kw \<Rightarrow> kw)
           in Inr \<lparr>fr_mlefit = mlefit, fr_cov_type = fa_cov_type args,
                   fr_use_t = fa_use_t args, fr_cov_kwds = cov_kwds\<rparr>))"

section \<open>Hurdle\<close>

text \<open>\<^verbatim>\<open>int(x)\<close> of a float truncates towards zero.\<close>

definition py_int :: "real \<Rightarrow> int" where
  "py_int x = (if x \<ge> 0 then \<lfloor>x\<rfloor> else \<lceil>x\<rceil>)"

text \<open>The slices \<^verbatim>\<open>a[:k]\<close> and \<^verbatim>\<open>a[k:]\<close>; a negative \<open>k\<close> counts from the end.\<close>

definition slice_to :: "int \<Rightarrow> 'a list \<Rightarrow> 'a list" where
  "slice_to k a = (if k \<ge> 0 then take (nat k) a else take (length a - nat (- k)) a)"

definition slice_from :: "int \<Rightarrow> 'a list \<Rightarrow> 'a list" where
  "slice_from k a = (if k \<ge> 0 then drop (nat k) a else drop (length a - nat (- k)) a)"

text \<open>\<^verbatim>\<open>which.lower()\<close> on ASCII.\<close>

definition lower_char :: "char \<Rightarrow> char" where
  "lower_char c =
     (case map_of (zip ''ABCDEFGHIJKLMNOPQRSTUVWXYZ'' ''abcdefghijklmnopqrstuvwxyz'') c of
        None \<Rightarrow> c
      | Some l \<Rightarrow> l)"

definition lower :: "string \<Rightarrow> string" where
  "lower s = map lower_char s"

text \<open>The field \<open>k_extra_sum\<close> is the attribute \<^verbatim>\<open>self.k_extra\<close>, which only \<^verbatim>\<open>fit\<close> sets. The
  names of the exogenous variables play no part in what follows and are left out.\<close>

record hurdle_model = count_model +
  k_extra1 :: int
  k_extra2 :: int
  k_extra_sum :: "int option"
  model1 :: censored_model
  model2 :: trunc_model

definition Hurdle_init ::
  "externals \<Rightarrow> int list \<Rightarrow> mat \<Rightarrow> arr option \<Rightarrow> string \<Rightarrow> string \<Rightarrow> real \<Rightarrow> real \<Rightarrow>
   arr option \<Rightarrow> error + hurdle_model" where
  "Hurdle_init ext endog0 exog0 offset0 dist0 zerodist0 p pzero exposure0 =
     (let self = CountModel_init endog0 exog0 offset0 exposure0 in
      if \<not> (dist0 \<in> set [''poisson'', ''negbin''] \<and> zerodist0 \<in> set [''poisson'', ''negbin''])
      then Inl (NotImplementedError ''dist and zerodist must be poisson,negbin'')
      else
        (let m1 = (if zerodist0 = ''poisson''
                   then Censored_init (endog self) (exog self) (Poisson ext) None None
                   else Censored_init (endog self) (exog self) (NegativeBinomialP ext) None None);
             m2 = (if dist0 = ''poisson''
                   then TruncatedPoisson_init (Poisson ext) (endog self) (exog self) None None 0
                   else TruncatedNegativeBinomialP_init (NegativeBinomialP ext) (endog self)
                          (exog self) None None 0 p)
         in Inr \<lparr>endog = endog self, exog = exog self, offset = offset self,
                 exposure = exposure self, k_extra1 = 0, k_extra2 = 0, k_extra_sum = None,
                 model1 = m1, model2 = m2\<rparr>))"

definition Hurdle_loglike :: "'a hurdle_model_scheme \<Rightarrow> vec \<Rightarrow> error + real" where
  "Hurdle_loglike self params =
     (let k = py_int (of_int (int (length params) - k_extra1 self - k_extra2 self) / 2)
                + k_extra1 self
      in case censored_loglike (model1 self) (slice_to k params) of
           Inl e \<Rightarrow> Inl e
         | Inr l1 \<Rightarrow> Inr (l1 + loglike (model2 self) (slice_from k params)))"

text \<open>\<^verbatim>\<open>scipy.linalg.block_diag\<close> of two matrices.\<close>

definition block_diag :: "mat \<Rightarrow> mat \<Rightarrow> mat" where
  "block_diag A B =
     map (\<lambda>row. row @ replicate (ncols B) 0) A @ map (\<lambda>row. replicate (ncols A) 0 @ row) B"

record hurdle_result =
  hr_params :: vec
  hr_converged :: "bool list"
  hr_df_model :: int
  hr_normalized_cov_params :: mat
  hr_results1 :: fit_result
  hr_results2 :: fit_result
  hr_cov_type :: string
  hr_use_t :: "bool option"
  hr_cov_kwds :: "(string \<times> string) list"

text \<open>\<^verbatim>\<open>fit\<close> changes the model: it returns the result and the model as it leaves it.\<close>

definition Hurdle_fit ::
  "(censored_model \<Rightarrow> fit_call \<Rightarrow> mle_result) \<Rightarrow> (trunc_model \<Rightarrow> fit_call \<Rightarrow> mle_result) \<Rightarrow>
   (base_class \<Rightarrow> main_args \<Rightarrow> vec) \<Rightarrow> hurdle_model \<Rightarrow> fit_args \<Rightarrow>
   error + hurdle_result \<times> hurdle_model" where
  "Hurdle_fit super_fit1 super_fit2 main_fit self args =
     (let sub_args = fit_defaults
            \<lparr>fa_start_params := fa_start_params args, fa_method := fa_method args,
             fa_maxiter := fa_maxiter args, fa_disp := fa_disp args,
             fa_full_output := fa_full_output args, fa_kwargs := fa_kwargs args\<rparr>
      in case GenericCensored_fit super_fit1 main_fit (model1 self) sub_args of
        Inl e \<Rightarrow> Inl e
      | Inr results1 \<Rightarrow>
     (case GenericTruncated_fit super_fit2 main_fit (model2 self) sub_args of
        Inl e \<Rightarrow> Inl e
      | Inr results2 \<Rightarrow>
          (let r1 = fr_mlefit results1;
               r2 = fr_mlefit results2;
               self = self\<lparr>k_extra1 := k_extra1 self
                              + (case res_k_extra r1 of None \<Rightarrow> 0 | Some k \<Rightarrow> k)\<rparr>;
               self = self\<lparr>k_extra2 := k_extra2 self
                              + (case res_k_extra r2 of None \<Rightarrow> 0 | Some k \<Rightarrow> k)\<rparr>;
               self = self\<lparr>k_extra_sum := Some (k_extra1 self + k_extra2 self + 1)\<rparr>;
               cov_kwds = (case fa_cov_kwds args of None \<Rightarrow> [] | Some kw \<Rightarrow> kw)
           in Inr (\<lparr>hr_params = res_params r1 @ res_params r2,
                    hr_converged = [res_converged r1, res_converged r2],
                    hr_df_model = res_df_model r1 + res_df_model r2,
                    hr_normalized_cov_params = block_diag (res_cov_params r1) (res_cov_params r2),
                    hr_results1 = results1, hr_results2 = results2,
                    hr_cov_type = fa_cov_type args, hr_use_t = fa_use_t args,
                    hr_cov_kwds = cov_kwds\<rparr>,
                   self))))"

text \<open>\<open>n\<close> calls of \<^verbatim>\<open>fit\<close> on the same model, one after the other, with the same
  arguments.\<close>

fun Hurdle_fit_times ::
  "nat \<Rightarrow> (censored_model \<Rightarrow> fit_call \<Rightarrow> mle_result) \<Rightarrow>
   (trunc_model \<Rightarrow> fit_call \<Rightarrow> mle_result) \<Rightarrow> (base_class \<Rightarrow> main_args \<Rightarrow> vec) \<Rightarrow>
   hurdle_model \<Rightarrow> fit_args \<Rightarrow> error + hurdle_model" where
  "Hurdle_fit_times 0 super_fit1 super_fit2 main_fit self args = Inr self"
| "Hurdle_fit_times (Suc n) super_fit1 super_fit2 main_fit self args =
     (case Hurdle_fit super_fit1 super_fit2 main_fit self args of
        Inl e \<Rightarrow> Inl e
      | Inr (result, self') \<Rightarrow> Hurdle_fit_times n super_fit1 super_fit2 main_fit self' args)"

text \<open>\<^verbatim>\<open>a[:, 0] = v\<close>: raises when the matrix has no column.\<close>

definition set_col0 :: "mat \<Rightarrow> vec \<Rightarrow> error + mat" where
  "set_col0 A v =
     (if list_ex (\<lambda>row. row = []) A then Inl (IndexError ''index 0 is out of bounds for axis 1'')
      else Inr (map2 (\<lambda>row z. z # tl row) A v))"

text \<open>In \<^verbatim>\<open>predict\<close> the linear predictor, the mean of the zero stage
  (\<^verbatim>\<open>self.model1.predict(params_zero, exog=exog)\<close>) and the two calls of \<^verbatim>\<open>_prob_nonzero\<close>
  all run before the dispatch on \<^verbatim>\<open>which\<close>: an error of any of them ends the call,
  whatever was asked for.\<close>

definition Hurdle_predict ::
  "externals \<Rightarrow> 'a hurdle_model_scheme \<Rightarrow> vec \<Rightarrow> mat option \<Rightarrow> mat option \<Rightarrow> arr option \<Rightarrow>
   arr option \<Rightarrow> string \<Rightarrow> int list option \<Rightarrow> error + pred" where
  "Hurdle_predict ext self params exog0 exog_zero0 exposure0 offset0 which0 y_values =
     (let which = lower which0;
          no_exog = (exog0 = None)
      in case get_predict_arrays ext (as_count_model self) exog0 offset0 exposure0 of
        (exog1, offset1, exposure1) \<Rightarrow>
     (let exog_zero = (case exog_zero0 of
                         None \<Rightarrow> (if no_exog then exog self else exog1)
                       | Some z \<Rightarrow> z);
          k_zeros = py_int (of_int (int (length params) - k_extra1 self - k_extra2 self) / 2)
                      + k_extra1 self;
          params_zero = slice_to k_zeros params;
          params_main = slice_from k_zeros params
      in case dot exog1 (take (ncols (exog self)) params_main) of
        Inl e \<Rightarrow> Inl e
      | Inr fitted \<Rightarrow>
     (case add_arr fitted exposure1 of
        Inl e \<Rightarrow> Inl e
      | Inr fe \<Rightarrow>
     (case add_arr fe offset1 of
        Inl e \<Rightarrow> Inl e
      | Inr lin_pred \<Rightarrow>
     (case CountModel_predict ext (as_count_model (model1 self)) params_zero (Some exog1) of
        Inl e \<Rightarrow> Inl e
      | Inr mu1 \<Rightarrow>
     (case bc_prob_nonzero (cens_main_class (model1 self)) (cens_model_main (model1 self))
             mu1 params_zero of
        Inl e \<Rightarrow> Inl e
      | Inr prob_main \<Rightarrow>
     (let prob_zero = map (\<lambda>q. 1 - q) prob_main;
          mu2 = map exp lin_pred
      in case bc_prob_nonzero (cens_main_class (model1 self)) (cens_model_main (model1 self))
                mu2 params_main of
        Inl e \<Rightarrow> Inl e
      | Inr prob_ntrunc \<Rightarrow>
         if which = ''mean'' then
           Inr (PVec (map2 (/) (map2 (*) prob_main (map exp lin_pred)) prob_ntrunc))
         else if which = ''mean-main'' then Inr (PVec (map exp lin_pred))
         else if which = ''linear'' then Inr (PVec lin_pred)
         else if which = ''mean-nonzero'' then
           Inr (PVec (map2 (/) (map exp lin_pred) prob_ntrunc))
         else if which = ''prob-zero'' then Inr (PVec prob_zero)
         else if which = ''prob-main'' then Inr (PVec prob_main)
         else if which = ''prob-trunc'' then Inr (PVec (map (\<lambda>q. 1 - q) prob_ntrunc))
         else if which = ''prob'' then
           (case trunc_predict ext (model2 self) params_main (Some exog1)
                   (Some (arr_map exp exposure1)) (Some offset1) ''prob'' y_values of
              Inl e \<Rightarrow> Inl e
            | Inr (PMat probs_main) \<Rightarrow>
                (case set_col0 (row_scale probs_main prob_main) prob_zero of
                   Inl e \<Rightarrow> Inl e
                 | Inr probs \<Rightarrow> Inr (PMat probs))
            | Inr other \<Rightarrow> Inl (TypeError ''not a matrix''))
         else Inl (ValueError (''which = '' @ which @ '' is not available'')))))))))"

section \<open>The specification's formula for the score\<close>



section \<open>A Poisson base class\<close>

text \<open>
  Modelled from the spec: the Poisson base distribution, whose class \<^verbatim>\<open>Poisson\<close> of
  \<^verbatim>\<open>statsmodels.discrete.discrete_model\<close> is not among the sources. With the linear
  predictor \<open>\<eta> = x\<beta> + offset + log(exposure)\<close> and \<open>\<mu> = exp \<eta>\<close>, the log-probability of
  the count \<open>y\<close> is \<open>- \<mu> + y \<eta> - ln (y!)\<close>, its gradient is \<open>(y - \<mu>) x\<close>, and the probability
  of a nonzero count is \<open>1 - exp (- \<mu>)\<close> (the zero probability that the source's own
  zero-truncated mean \<^verbatim>\<open>mu / (1 - np.exp(-mu))\<close> uses). It serves as the concrete base
  distribution at which the theorems below are evaluated.
\<close>

definition arr_at :: "arr \<Rightarrow> nat \<Rightarrow> real" where
  "arr_at a r = (case a of Scalar c \<Rightarrow> c | Arr v \<Rightarrow> v ! r)"

definition poisson_XB :: "main_args \<Rightarrow> vec \<Rightarrow> vec" where
  "poisson_XB args params =
     map (\<lambda>r. row_dot (a_exog args ! r) params
               + (case a_offset args of None \<Rightarrow> 0 | Some a \<Rightarrow> arr_at a r)
               + (case a_exposure args of None \<Rightarrow> 0 | Some a \<Rightarrow> ln (arr_at a r)))
         [0..<length (a_exog args)]"

definition poisson_loglikeobs :: "main_args \<Rightarrow> vec \<Rightarrow> vec" where
  "poisson_loglikeobs args params =
     map2 (\<lambda>xb y. - exp xb + of_int y * xb - ln (fact (nat y)))
          (poisson_XB args params) (a_endog args)"

definition poisson_score_obs :: "main_args \<Rightarrow> vec \<Rightarrow> mat" where
  "poisson_score_obs args params =
     map2 (\<lambda>(xb, y) row. map (\<lambda>x. (of_int y - exp xb) * x) row)
          (zip (poisson_XB args params) (a_endog args)) (a_exog args)"

definition poisson_prob_nonzero :: "main_args \<Rightarrow> vec \<Rightarrow> vec \<Rightarrow> error + vec" where
  "poisson_prob_nonzero args mu params = Inr (map (\<lambda>m. 1 - exp (- m)) mu)"

definition poisson_pmf :: "int \<Rightarrow> real \<Rightarrow> real" where
  "poisson_pmf c m = (if c < 0 then 0 else exp (- m) * m ^ nat c / fact (nat c))"

definition poisson_predict_prob ::
  "main_args \<Rightarrow> vec \<Rightarrow> mat \<Rightarrow> arr \<Rightarrow> arr \<Rightarrow> int list option \<Rightarrow> mat" where
  "poisson_predict_prob args params exog1 exposure1 offset1 y_values =
     (let counts = (case y_values of
                      Some c \<Rightarrow> c
                    | None \<Rightarrow> [0..Max (set (a_endog args))])
      in map (\<lambda>r. map (\<lambda>c. poisson_pmf c
                              (exp (row_dot (exog1 ! r) params + ln (arr_at exposure1 r)
                                    + arr_at offset1 r))) counts)
             [0..<length exog1])"

definition Poisson_class :: base_class where
  "Poisson_class =
     \<lparr>bc_loglikeobs = poisson_loglikeobs, bc_score_obs = poisson_score_obs,
      bc_prob_nonzero = poisson_prob_nonzero, bc_predict_prob = poisson_predict_prob,
      bc_parameterization = (\<lambda>args. None), bc_k_extra = (\<lambda>args. 0)\<rparr>"

section \<open>The other collaborators, for the examples\<close>

text \<open>
  Modelled from the spec: the Negative-Binomial-P base class, whose class
  \<^verbatim>\<open>NegativeBinomialP\<close> is not among the sources, as far as it has a closed form here. Its
  parameterization is the \<open>p\<close> it was built with (2 by default), it has one extra
  parameter, the dispersion \<open>alpha = params[-1]\<close> (an empty \<open>params\<close> raises), and its
  zero probability is
  \<open>(1 + alpha \<mu>\<^sup>p\<^sup>-\<^sup>1) powr (- 1 / alpha)\<close> (the zero probability that the source's own
  zero-truncated mean of \<^verbatim>\<open>TruncatedNegativeBinomialP\<close> uses). The other methods need the
  gamma function and are taken from \<open>rest\<close>.
\<close>

definition negbin_parameterization :: "main_args \<Rightarrow> real option" where
  "negbin_parameterization args = Some (case a_p args of None \<Rightarrow> 2 | Some p \<Rightarrow> p)"

definition negbin_prob_nonzero :: "main_args \<Rightarrow> vec \<Rightarrow> vec \<Rightarrow> error + vec" where
  "negbin_prob_nonzero args mu params =
     (if params = [] then Inl (IndexError ''index -1 is out of bounds'')
      else
        (let alpha = last params;
             p = (case a_p args of None \<Rightarrow> 2 | Some p \<Rightarrow> p)
         in Inr (map (\<lambda>m. 1 - (1 + alpha * m powr (p - 1)) powr (- 1 / alpha)) mu)))"

definition NegativeBinomialP_class :: "base_class \<Rightarrow> base_class" where
  "NegativeBinomialP_class rest =
     rest\<lparr>bc_prob_nonzero := negbin_prob_nonzero,
          bc_parameterization := negbin_parameterization,
          bc_k_extra := (\<lambda>args. 1)\<rparr>"

text \<open>
  Modelled from the spec: the zero- or higher-truncated Poisson distribution
  \<^verbatim>\<open>truncatedpoisson\<close> of \<^verbatim>\<open>statsmodels.distributions.discrete\<close>, which is not among the
  sources: the Poisson probability scaled by the truncation normalizer, and zero at the
  counts \<open>k \<le> truncation\<close> (``pmf(k) = 0 for k <= truncation'').
\<close>

definition truncpoisson_pmf :: "int \<Rightarrow> real \<Rightarrow> int \<Rightarrow> real" where
  "truncpoisson_pmf c m t =
     (if c \<le> t then 0
      else poisson_pmf c m / (1 - (\<Sum>i\<leftarrow>[0..t]. poisson_pmf i m)))"

text \<open>
  Modelled from the spec: the methods \<^verbatim>\<open>_get_predict_arrays\<close> and \<^verbatim>\<open>predict\<close> that the
  models inherit from \<^verbatim>\<open>CountModel\<close>, which is not among the sources. The first logs a
  given exposure and fills in what is not given: the model's own arrays when no \<open>exog\<close> is
  given, zero otherwise. The second returns the mean \<open>exp (x\<beta>)\<close>, for a given \<open>exog\<close>
  without offset or exposure, with \<open>x\<beta>\<close> the \<^verbatim>\<open>np.dot(exog, params[:exog.shape[1]])\<close> that
  raises when the parameters do not fit the regressors.
\<close>

definition count_get_predict_arrays ::
  "count_model \<Rightarrow> mat option \<Rightarrow> arr option \<Rightarrow> arr option \<Rightarrow> mat \<times> arr \<times> arr" where
  "count_get_predict_arrays self exog0 offset0 exposure0 =
     (let exposure1 = map_option (arr_map ln) exposure0 in
      case exog0 of
        None \<Rightarrow>
          (exog self,
           (case offset0 of
              None \<Rightarrow> (case offset self of None \<Rightarrow> Scalar 0 | Some a \<Rightarrow> a)
            | Some a \<Rightarrow> a),
           (case exposure1 of
              None \<Rightarrow> (case exposure self of None \<Rightarrow> Scalar 0 | Some a \<Rightarrow> a)
            | Some a \<Rightarrow> a))
      | Some x \<Rightarrow>
          (x,
           (case offset0 of None \<Rightarrow> Scalar 0 | Some a \<Rightarrow> a),
           (case exposure1 of None \<Rightarrow> Scalar 0 | Some a \<Rightarrow> a)))"

definition count_predict :: "count_model \<Rightarrow> vec \<Rightarrow> mat option \<Rightarrow> error + vec" where
  "count_predict self params exog0 =
     (let exog1 = (case exog0 of None \<Rightarrow> exog self | Some x \<Rightarrow> x)
      in case dot exog1 (take (ncols exog1) params) of
           Inl e \<Rightarrow> Inl e
         | Inr fitted \<Rightarrow> Inr (map exp fitted))"

definition example_ext ::
  "base_class \<Rightarrow> (int \<Rightarrow> real \<Rightarrow> real \<Rightarrow> real \<Rightarrow> int \<Rightarrow> real) \<Rightarrow> externals" where
  "example_ext rest negbin_pmf =
     \<lparr>Poisson = Poisson_class, NegativeBinomialP = NegativeBinomialP_class rest,
      GeneralizedPoisson = rest, truncatedpoisson_pmf = truncpoisson_pmf,
      truncatednegbin_pmf = negbin_pmf, get_predict_arrays = count_get_predict_arrays,
      CountModel_predict = count_predict\<rparr>"

section \<open>Example models\<close>


definition example_tp1 :: trunc_model where
  "example_tp1 = TruncatedPoisson_init Poisson_class [2, 1, 3] [[1], [1], [1]] None None 1"

definition example_tpm :: trunc_model where
  "example_tpm = TruncatedPoisson_init Poisson_class [0, 2] [[1], [1]] None None (- 1)"

text \<open>A hurdle model with a Poisson zero stage and a Negative-Binomial positive stage, as
  the constructor builds it, on three observations and three regressors.\<close>

definition example_X3 :: mat where
  "example_X3 = [[1, 0, 0], [1, 1, 0], [1, 0, 1]]"

definition example_hurdle :: "externals \<Rightarrow> hurdle_model" where
  "example_hurdle ext =
     \<lparr>endog = [0, 1, 2], exog = example_X3, offset = None, exposure = None,
      k_extra1 = 0, k_extra2 = 0, k_extra_sum = None,
      model1 = Censored_init [0, 1, 2] example_X3 (Poisson ext) None None,
      model2 = TruncatedNegativeBinomialP_init (NegativeBinomialP ext) [0, 1, 2] example_X3
                 None None 0 2\<rparr>"

text \<open>A stand-in for the optimizer: it returns its start values and reports the number
  \<open>kx\<close> of extra parameters.\<close>

definition example_optimizer :: "int option \<Rightarrow> 'm \<Rightarrow> fit_call \<Rightarrow> mle_result" where
  "example_optimizer kx self call =
     \<lparr>res_params = fc_start_params call, res_converged = True, res_df_model = 0,
      res_k_extra = kx, res_cov_params = []\<rparr>"

text \<open>A hurdle model with Poisson stages, as the constructor builds it, on three
  observations and a constant regressor.\<close>

definition example_hurdle_pp :: "externals \<Rightarrow> hurdle_model" where
  "example_hurdle_pp ext =
     \<lparr>endog = [0, 1, 2], exog = [[1], [1], [1]], offset = None, exposure = None,
      k_extra1 = 0, k_extra2 = 0, k_extra_sum = None,
      model1 = Censored_init [0, 1, 2] [[1], [1], [1]] (Poisson ext) None None,
      model2 = TruncatedPoisson_init (Poisson ext) [0, 1, 2] [[1], [1], [1]] None None 0\<rparr>"

section \<open>The specification's composite mean\<close>

text \<open>The composite mean as the specification words it: \<open>prob_main \<sqdot> mean_main / prob_ntrunc\<close>,
  with \<open>prob_ntrunc\<close> the probability mass above zero under the distribution of the
  positive stage (the base instance of \<open>model2\<close>) at \<open>params_main\<close>.\<close>

definition Hurdle_mean_spec ::
  "externals \<Rightarrow> 'a hurdle_model_scheme \<Rightarrow> vec \<Rightarrow> mat \<Rightarrow> error + vec" where
  "Hurdle_mean_spec ext self params exog1 =
     (let k = py_int (of_int (int (length params) - k_extra1 self - k_extra2 self) / 2)
                + k_extra1 self;
          params_zero = slice_to k params;
          params_main = slice_from k params;
          mean_main = map (\<lambda>row. exp (row_dot row (take (ncols (exog self)) params_main))) exog1
      in case CountModel_predict ext (as_count_model (model1 self)) params_zero (Some exog1) of
        Inl e \<Rightarrow> Inl e
      | Inr mu1 \<Rightarrow>
     (case bc_prob_nonzero (cens_main_class (model1 self)) (cens_model_main (model1 self))
             mu1 params_zero of
        Inl e \<Rightarrow> Inl e
      | Inr prob_main \<Rightarrow>
     (case bc_prob_nonzero (main_class (model2 self)) (model_main (model2 self))
             mean_main params_main of
        Inl e \<Rightarrow> Inl e
      | Inr prob_ntrunc \<Rightarrow> Inr (map2 (/) (map2 (*) prob_main mean_main) prob_ntrunc))))"

section \<open>Arrays: lengths and entries\<close>

lemma py_range_nonpos: "n \<le> 0 \<Longrightarrow> py_range n = []"
  by (simp add: py_range_def)









lemma vsub_zeros: "length a = n \<Longrightarrow> vsub a (replicate n 0) = a"
  by (induction a arbitrary: n) (auto simp: vsub_def)

lemma vadd_zeros: "vadd a (replicate (length a) 0) = a"
  by (induction a) (auto simp: vadd_def)

lemma madd_zeros: "madd A (zeros_like_mat A) = A"
  by (induction A) (auto simp: madd_def zeros_like_mat_def vadd_zeros)

lemma row_div_ones:
  "length A = n \<Longrightarrow> row_div (zeros_like_mat A) (replicate n 1) = zeros_like_mat A"
  by (induction A arbitrary: n) (auto simp: row_div_def zeros_like_mat_def)







section \<open>The loop over the truncated region\<close>




section \<open>Evaluating the example models\<close>

lemmas ctor_defs = TruncatedPoisson_init_def GenericTruncated_init_def CountModel_init_def
  bool_index_def Let_def

lemmas pois_defs = Poisson_class_def poisson_loglikeobs_def poisson_score_obs_def poisson_XB_def
  row_dot_def


lemma upto_0_0: "[0..(0::int)] = [0]"
  by (simp add: upto.simps)



lemma example_tp1_fields:
  "endog example_tp1 = [2, 3]" "exog example_tp1 = [[1], [1]]" "trunc example_tp1 = 1"
  "main_class example_tp1 = Poisson_class"
  "model_main example_tp1 =
     \<lparr>a_endog = [2, 3], a_exog = [[1], [1]], a_offset = None, a_exposure = None, a_p = None\<rparr>"
  by (simp_all add: example_tp1_def ctor_defs)

lemma example_tpm_fields:
  "endog example_tpm = [0, 2]" "exog example_tpm = [[1], [1]]" "trunc example_tpm = - 1"
  "main_class example_tpm = Poisson_class"
  "model_main example_tpm =
     \<lparr>a_endog = [0, 2], a_exog = [[1], [1]], a_offset = None, a_exposure = None, a_p = None\<rparr>"
  by (simp_all add: example_tpm_def ctor_defs)



section \<open>The score of the truncated model\<close>




section \<open>No truncation\<close>

text \<open>
  Claim C4: a truncated model with truncation point \<open>-1\<close> (the constructors store the
  truncation point they are given in \<open>trunc\<close>) returns the log-likelihood and the score of
  its untruncated base distribution, entry for entry: the loop over the truncated region
  runs zero times, so the log-likelihood loses \<open>log (1 - 0) = 0\<close> and the score gains
  \<open>0 / (1 - 0) = 0\<close>. The base distribution returns one entry, respectively one row, per
  observation.
\<close>

theorem no_truncation_is_base:
  assumes "trunc self = - 1"
    and "length (bc_loglikeobs (main_class self) (model_main self) params) = length (endog self)"
    and "length (bc_score_obs (main_class self) (model_main self) params) = length (endog self)"
  shows "loglikeobs self params = bc_loglikeobs (main_class self) (model_main self) params
       \<and> score_obs self params = bc_score_obs (main_class self) (model_main self) params"
  using assms
  by (simp add: loglikeobs_def score_obs_def py_range_nonpos zeros_like_def vsub_zeros
      row_div_ones madd_zeros Let_def)

theorem no_truncation_is_base_witness:
  "trunc example_tpm = - 1
   \<and> length (bc_loglikeobs (main_class example_tpm) (model_main example_tpm) [0])
       = length (endog example_tpm)
   \<and> length (bc_score_obs (main_class example_tpm) (model_main example_tpm) [0])
       = length (endog example_tpm)
   \<and> loglikeobs example_tpm [0]
       = bc_loglikeobs (main_class example_tpm) (model_main example_tpm) [0]
   \<and> score_obs example_tpm [0]
       = bc_score_obs (main_class example_tpm) (model_main example_tpm) [0]"
proof -
  have h1: "trunc example_tpm = - 1" by (simp add: example_tpm_fields)
  have h2: "length (bc_loglikeobs (main_class example_tpm) (model_main example_tpm) [0])
       = length (endog example_tpm)"
    by (simp add: example_tpm_fields pois_defs)
  have h3: "length (bc_score_obs (main_class example_tpm) (model_main example_tpm) [0])
       = length (endog example_tpm)"
    by (simp add: example_tpm_fields pois_defs)
  from no_truncation_is_base[OF h1 h2 h3] h1 h2 h3 show ?thesis by simp
qed

section \<open>The constructor of the truncated model\<close>

lemma bool_index_zip:
  "length ys = length xs \<Longrightarrow>
   zip (bool_index ys (map P ys)) (bool_index xs (map P ys))
     = filter (\<lambda>(y, x). P y) (zip ys xs)"
  by (induction ys xs rule: list_induct2) (auto simp: bool_index_def)

lemma length_bool_index:
  "length ys = length xs \<Longrightarrow>
   length (bool_index xs (map P ys)) = length (bool_index ys (map P ys))"
  by (induction ys xs rule: list_induct2) (auto simp: bool_index_def)

lemma GenericTruncated_init_fields:
  "endog (GenericTruncated_init endog0 exog0 t off ex)
     = bool_index endog0 (map (\<lambda>y. y \<ge> t + 1) endog0)"
  "exog (GenericTruncated_init endog0 exog0 t off ex)
     = bool_index exog0 (map (\<lambda>y. y \<ge> t + 1) endog0)"
  "trunc (GenericTruncated_init endog0 exog0 t off ex) = t"
  "truncation (GenericTruncated_init endog0 exog0 t off ex) = t"
  by (simp_all add: GenericTruncated_init_def CountModel_init_def Let_def)

lemma subclass_init_fields:
  "endog (TruncatedPoisson_init cls endog0 exog0 off ex t)
     = endog (GenericTruncated_init endog0 exog0 t off ex)"
  "exog (TruncatedPoisson_init cls endog0 exog0 off ex t)
     = exog (GenericTruncated_init endog0 exog0 t off ex)"
  "trunc (TruncatedPoisson_init cls endog0 exog0 off ex t) = t"
  "truncation (TruncatedPoisson_init cls endog0 exog0 off ex t) = t"
  "endog (TruncatedNegativeBinomialP_init cls endog0 exog0 off ex t p)
     = endog (GenericTruncated_init endog0 exog0 t off ex)"
  "exog (TruncatedNegativeBinomialP_init cls endog0 exog0 off ex t p)
     = exog (GenericTruncated_init endog0 exog0 t off ex)"
  "trunc (TruncatedNegativeBinomialP_init cls endog0 exog0 off ex t p) = t"
  "truncation (TruncatedNegativeBinomialP_init cls endog0 exog0 off ex t p) = t"
  "endog (TruncatedGeneralizedPoisson_init cls endog0 exog0 off ex t p)
     = endog (GenericTruncated_init endog0 exog0 t off ex)"
  "exog (TruncatedGeneralizedPoisson_init cls endog0 exog0 off ex t p)
     = exog (GenericTruncated_init endog0 exog0 t off ex)"
  "trunc (TruncatedGeneralizedPoisson_init cls endog0 exog0 off ex t p) = t"
  "truncation (TruncatedGeneralizedPoisson_init cls endog0 exog0 off ex t p) = t"
  by (simp_all add: TruncatedPoisson_init_def TruncatedNegativeBinomialP_init_def
      TruncatedGeneralizedPoisson_init_def Let_def GenericTruncated_init_fields)

lemma trunc_call_frame: "snd (trunc_call env self c) = self"
  by (cases c) simp_all

lemma trunc_calls_frame: "trunc_calls env self cs = self"
  by (induction cs) (simp_all add: trunc_call_frame)

text \<open>
  Claim C6: the constructor of a truncated model keeps, in their order, exactly the rows
  whose response is not \<open>\<le> trunc\<close>, with the same rows of \<open>endog\<close> and \<open>exog\<close> (the pairs
  of the filtered arrays are the filtered pairs), it stores the truncation point, and no
  sequence of calls of the model's methods (\<^verbatim>\<open>loglike\<close>, \<^verbatim>\<open>loglikeobs\<close>, \<^verbatim>\<open>score_obs\<close>,
  \<^verbatim>\<open>score\<close>, \<^verbatim>\<open>hessian\<close>, \<^verbatim>\<open>fit\<close>, \<^verbatim>\<open>fit_regularized\<close>, \<^verbatim>\<open>predict\<close>) changes the retained
  data or the truncation point. The input has one row of \<open>exog\<close> per response.
\<close>

theorem constructor_discards_truncated_rows:
  assumes "length endog0 = length exog0"
    and "self = TruncatedPoisson_init cls endog0 exog0 off ex t
         \<or> self = TruncatedNegativeBinomialP_init cls endog0 exog0 off ex t p
         \<or> self = TruncatedGeneralizedPoisson_init cls endog0 exog0 off ex t p"
  shows "zip (endog (GenericTruncated_init endog0 exog0 t off ex))
             (exog (GenericTruncated_init endog0 exog0 t off ex))
           = filter (\<lambda>(y, x). \<not> y \<le> t) (zip endog0 exog0)
       \<and> zip (endog self) (exog self) = filter (\<lambda>(y, x). \<not> y \<le> t) (zip endog0 exog0)
       \<and> length (endog self) = length (exog self)
       \<and> trunc self = t \<and> truncation self = t
       \<and> endog (trunc_calls env self cs) = endog self
       \<and> exog (trunc_calls env self cs) = exog self
       \<and> trunc (trunc_calls env self cs) = t
       \<and> truncation (trunc_calls env self cs) = t"
proof -
  have P: "(\<lambda>(y::int, x::real list). t + 1 \<le> y) = (\<lambda>(y, x). \<not> y \<le> t)"
    by (auto simp: fun_eq_iff)
  have Z: "zip (endog (GenericTruncated_init endog0 exog0 t off ex))
               (exog (GenericTruncated_init endog0 exog0 t off ex))
             = filter (\<lambda>(y, x). \<not> y \<le> t) (zip endog0 exog0)"
    using assms(1) bool_index_zip[of endog0 exog0 "\<lambda>y. y \<ge> t + 1"]
    by (simp add: GenericTruncated_init_fields P)
  have L: "length (endog (GenericTruncated_init endog0 exog0 t off ex))
             = length (exog (GenericTruncated_init endog0 exog0 t off ex))"
    using assms(1) length_bool_index[of endog0 exog0 "\<lambda>y. y \<ge> t + 1"]
    by (simp add: GenericTruncated_init_fields)
  from assms(2) show ?thesis
    by (auto simp: subclass_init_fields Z L trunc_calls_frame)
qed

text \<open>The claim at the responses \<open>2, 1, 3\<close> and the truncation point 1: the second row goes,
  and a call of \<^verbatim>\<open>loglikeobs\<close> followed by one of \<^verbatim>\<open>score_obs\<close> and one of \<^verbatim>\<open>predict\<close>
  leaves the two rows that are kept.\<close>

theorem constructor_discards_truncated_rows_witness:
  "\<forall>env.
     length [2, 1, 3 :: int] = length [[1], [1], [1 :: real]]
   \<and> (example_tp1 = TruncatedPoisson_init Poisson_class [2, 1, 3] [[1], [1], [1]] None None 1
      \<or> example_tp1 = TruncatedNegativeBinomialP_init Poisson_class [2, 1, 3] [[1], [1], [1]]
                         None None 1 2
      \<or> example_tp1 = TruncatedGeneralizedPoisson_init Poisson_class [2, 1, 3] [[1], [1], [1]]
                         None None 1 2)
   \<and> zip (endog example_tp1) (exog example_tp1) = [(2, [1]), (3, [1])]
   \<and> trunc example_tp1 = 1
   \<and> endog (trunc_calls env example_tp1
               [Call_loglikeobs [0], Call_score_obs [0],
                Call_predict [0] None None None ''mean'' None]) = [2, 3]
   \<and> exog (trunc_calls env example_tp1
               [Call_loglikeobs [0], Call_score_obs [0],
                Call_predict [0] None None None ''mean'' None]) = [[1], [1]]
   \<and> trunc (trunc_calls env example_tp1
               [Call_loglikeobs [0], Call_score_obs [0],
                Call_predict [0] None None None ''mean'' None]) = 1"
proof
  fix env
  have h1: "length [2, 1, 3 :: int] = length [[1], [1], [1 :: real]]" by simp
  have h2: "example_tp1 = TruncatedPoisson_init Poisson_class [2, 1, 3] [[1], [1], [1]] None None 1
      \<or> example_tp1 = TruncatedNegativeBinomialP_init Poisson_class [2, 1, 3] [[1], [1], [1]]
                         None None 1 2
      \<or> example_tp1 = TruncatedGeneralizedPoisson_init Poisson_class [2, 1, 3] [[1], [1], [1]]
                         None None 1 2"
    by (simp add: example_tp1_def)
  from constructor_discards_truncated_rows[OF h1 h2, of env
      "[Call_loglikeobs [0], Call_score_obs [0], Call_predict [0] None None None ''mean'' None]"]
  show "length [2, 1, 3 :: int] = length [[1], [1], [1 :: real]]
   \<and> (example_tp1 = TruncatedPoisson_init Poisson_class [2, 1, 3] [[1], [1], [1]] None None 1
      \<or> example_tp1 = TruncatedNegativeBinomialP_init Poisson_class [2, 1, 3] [[1], [1], [1]]
                         None None 1 2
      \<or> example_tp1 = TruncatedGeneralizedPoisson_init Poisson_class [2, 1, 3] [[1], [1], [1]]
                         None None 1 2)
   \<and> zip (endog example_tp1) (exog example_tp1) = [(2, [1]), (3, [1])]
   \<and> trunc example_tp1 = 1
   \<and> endog (trunc_calls env example_tp1
               [Call_loglikeobs [0], Call_score_obs [0],
                Call_predict [0] None None None ''mean'' None]) = [2, 3]
   \<and> exog (trunc_calls env example_tp1
               [Call_loglikeobs [0], Call_score_obs [0],
                Call_predict [0] None None None ''mean'' None]) = [[1], [1]]
   \<and> trunc (trunc_calls env example_tp1
               [Call_loglikeobs [0], Call_score_obs [0],
                Call_predict [0] None None None ''mean'' None]) = 1"
    using h2 by (simp add: example_tp1_fields)
qed

section \<open>The log-likelihood of the censored model\<close>

lemma np_nonzero_map: "np_nonzero (map P ys) = filter (\<lambda>i. P (ys ! i)) [0..<length ys]"
  by (auto simp: np_nonzero_def intro: filter_cong)

lemma fancy_index_ok:
  "list_all (\<lambda>i. i < length a) idx \<Longrightarrow> fancy_index a idx = Inr (map (\<lambda>i. a ! i) idx)"
  by (simp add: fancy_index_def)

lemma idx_in_range: "list_all (\<lambda>i. i < n) (filter Q [0..<n])"
  by (simp add: list_all_iff)

lemma censored_fields:
  "zero_idx (censored_with cls p (GenericCensored_init endog0 exog0 off ex))
     = filter (\<lambda>i. endog0 ! i = 0) [0..<length endog0]"
  "nonzero_idx (censored_with cls p (GenericCensored_init endog0 exog0 off ex))
     = filter (\<lambda>i. endog0 ! i \<noteq> 0) [0..<length endog0]"
  "cens_main_class (censored_with cls p (GenericCensored_init endog0 exog0 off ex)) = cls"
  "cens_model_main (censored_with cls p (GenericCensored_init endog0 exog0 off ex))
     = \<lparr>a_endog = map (\<lambda>y. 0) endog0, a_exog = exog0, a_offset = None, a_exposure = None,
        a_p = p\<rparr>"
  by (simp_all add: censored_with_def GenericCensored_init_def CountModel_init_def Let_def
      np_nonzero_map)

text \<open>
  Claim C5: the censored model (every constructor builds it as \<open>censored_with\<close> the base
  class on the all-zero response) returns, first for the rows whose original response is
  zero and then for the rows whose original response is not, in increasing row order
  within each group: the base log-probability of zero \<open>log f(0|x)\<close> for a zero row, and
  \<open>log (1 - f(0|x))\<close>, with \<open>f(0|x) = exp (log f(0|x))\<close>, for a nonzero row. For the
  responses \<open>0, 2, 0, 5\<close> the rows come out in the order 0, 2, 1, 3. The base distribution
  returns one log-probability per row.
\<close>

theorem censored_loglikeobs_zero_rows_first:
  assumes "length (bc_loglikeobs cls
                     \<lparr>a_endog = map (\<lambda>y. 0) endog0, a_exog = exog0, a_offset = None,
                      a_exposure = None, a_p = p\<rparr> params) = length endog0"
  shows "censored_loglikeobs (censored_with cls p (GenericCensored_init endog0 exog0 off ex))
           params =
           (let llf_main = bc_loglikeobs cls
                  \<lparr>a_endog = map (\<lambda>y. 0) endog0, a_exog = exog0, a_offset = None,
                   a_exposure = None, a_p = p\<rparr> params
            in Inr (map (\<lambda>i. llf_main ! i) (filter (\<lambda>i. endog0 ! i = 0) [0..<length endog0])
                    @ map (\<lambda>i. ln (1 - exp (llf_main ! i)))
                        (filter (\<lambda>i. endog0 ! i \<noteq> 0) [0..<length endog0])))
       \<and> zero_idx (censored_with cls p (GenericCensored_init [0, 2, 0, 5] exog0 off ex))
           @ nonzero_idx (censored_with cls p (GenericCensored_init [0, 2, 0, 5] exog0 off ex))
           = [0, 2, 1, 3]"
proof -
  define llf_main where "llf_main = bc_loglikeobs cls
                \<lparr>a_endog = map (\<lambda>y. 0) endog0, a_exog = exog0, a_offset = None,
                 a_exposure = None, a_p = p\<rparr> params"
  have len: "length llf_main = length endog0" using assms by (simp add: llf_main_def)
  have z: "fancy_index llf_main (filter (\<lambda>i. endog0 ! i = 0) [0..<length endog0])
             = Inr (map (\<lambda>i. llf_main ! i) (filter (\<lambda>i. endog0 ! i = 0) [0..<length endog0]))"
    using len by (intro fancy_index_ok) (simp add: idx_in_range)
  have nz: "fancy_index llf_main (filter (\<lambda>i. endog0 ! i \<noteq> 0) [0..<length endog0])
             = Inr (map (\<lambda>i. llf_main ! i)
                      (filter (\<lambda>i. endog0 ! i \<noteq> 0) [0..<length endog0]))"
    using len by (intro fancy_index_ok) (simp add: idx_in_range)
  have ex: "filter (\<lambda>i. [0, 2, 0, 5::int] ! i = 0) [0..<4] = [0, 2]"
           "filter (\<lambda>i. [0, 2, 0, 5::int] ! i \<noteq> 0) [0..<4] = [1, 3]"
    by (simp_all add: upt_rec)
  show ?thesis
    unfolding censored_loglikeobs_def censored_fields llf_main_def[symmetric] Let_def
    by (simp add: z nz ex comp_def)
qed

text \<open>The claim at the censored Poisson model of the responses \<open>0, 2, 0, 5\<close> with a constant
  regressor, at \<open>params = [0]\<close>: every row has \<open>log f(0|x) = - 1\<close>.\<close>

theorem censored_loglikeobs_zero_rows_first_witness:
  "length (bc_loglikeobs Poisson_class
             \<lparr>a_endog = map (\<lambda>y. 0) [0, 2, 0, 5], a_exog = [[1], [1], [1], [1]],
              a_offset = None, a_exposure = None, a_p = None\<rparr> [0]) = length [0, 2, 0, 5 :: int]
   \<and> censored_loglikeobs
       (CensoredPoisson_init Poisson_class [0, 2, 0, 5] [[1], [1], [1], [1]] None None) [0]
       = Inr [- 1, - 1, ln (1 - exp (- 1)), ln (1 - exp (- 1))]"
proof -
  have h: "length (bc_loglikeobs Poisson_class
             \<lparr>a_endog = map (\<lambda>y. 0) [0, 2, 0, 5], a_exog = [[1], [1], [1], [1]],
              a_offset = None, a_exposure = None, a_p = None\<rparr> [0]) = length [0, 2, 0, 5 :: int]"
    by (simp add: pois_defs)
  have ex: "filter (\<lambda>i. [0, 2, 0, 5::int] ! i = 0) [0..<4] = [0, 2]"
           "filter (\<lambda>i. [0, 2, 0, 5::int] ! i \<noteq> 0) [0..<4] = [1, 3]"
    by (simp_all add: upt_rec)
  have ll: "bc_loglikeobs Poisson_class
             \<lparr>a_endog = [0, 0, 0, 0], a_exog = [[1], [1], [1], [1]],
              a_offset = None, a_exposure = None, a_p = None\<rparr> [0] = [- 1, - 1, - 1, - 1]"
    by (simp add: pois_defs upt_rec)
  from censored_loglikeobs_zero_rows_first[OF h, of None None] h show ?thesis
    by (simp add: CensoredPoisson_init_def ex ll)
qed

section \<open>The split of the composite parameter vector\<close>

lemma py_int_of_int: "py_int (of_int m) = m"
  by (simp add: py_int_def)

lemma lower_examples:
  "lower ''prob-main'' = ''prob-main''" "lower ''linear'' = ''linear''"
  "lower ''mean'' = ''mean''" "lower ''prob'' = ''prob''"
  by (simp_all add: lower_def lower_char_def)

lemma example_hurdle_init:
  "Hurdle_init ext [0, 1, 2] example_X3 None ''negbin'' ''poisson'' 2 2 None
     = Inr (example_hurdle ext)"
  by (simp add: Hurdle_init_def example_hurdle_def CountModel_init_def Let_def)

text \<open>An error of the zero stage's prediction ends \<^verbatim>\<open>predict\<close>, whatever was asked for.\<close>

lemma hurdle_predict_stage1_error:
  assumes "get_predict_arrays ext (as_count_model self) exog0 offset0 exposure0
             = (exog1, offset1, exposure1)"
    and "(case dot exog1 (take (ncols (exog self))
                 (slice_from (py_int (of_int (int (length params) - k_extra1 self
                                               - k_extra2 self) / 2) + k_extra1 self) params)) of
            Inl e \<Rightarrow> Inl e
          | Inr fitted \<Rightarrow>
              (case add_arr fitted exposure1 of
                 Inl e \<Rightarrow> Inl e
               | Inr fe \<Rightarrow> add_arr fe offset1)) = Inr lin_pred"
    and "CountModel_predict ext (as_count_model (model1 self))
           (slice_to (py_int (of_int (int (length params) - k_extra1 self
                                       - k_extra2 self) / 2) + k_extra1 self) params)
           (Some exog1) = Inl err"
  shows "Hurdle_predict ext self params exog0 exog_zero0 exposure0 offset0 which0 y_values
           = Inl err"
  using assms
  by (auto simp: Hurdle_predict_def Let_def split: sum.splits)

text \<open>
  Claim C3: with \<open>k = int((len(params) - k_extra1 - k_extra2) / 2) + k_extra1\<close>, the
  log-likelihood of the hurdle model is that of the censoring stage at \<open>params[:k]\<close> plus
  that of the truncation stage at \<open>params[k:]\<close>, and \<^verbatim>\<open>predict\<close> splits at the same \<open>k\<close>: its
  linear predictor is computed from \<open>params[k:]\<close>, and the mean of the zero stage and the
  probability of the positive path from \<open>params[:k]\<close>. Where
  \<open>len(params) - k_extra1 - k_extra2\<close> is even, \<open>k\<close> is exactly half of it plus \<open>k_extra1\<close>;
  with \<open>k_extra1 = 0\<close>, \<open>k_extra2 = 1\<close> and seven parameters, \<open>k = 3\<close>. The arrays are those
  that \<^verbatim>\<open>_get_predict_arrays\<close> returns; the statements about \<^verbatim>\<open>predict\<close> are for the calls
  in which the linear predictor, the prediction of the zero stage at \<open>params[:k]\<close> and the
  two calls of \<^verbatim>\<open>_prob_nonzero\<close> return (a call in which one of them raises returns
  nothing).
\<close>

theorem hurdle_split_index:
  assumes k: "k = py_int (of_int (int (length params) - k_extra1 self - k_extra2 self) / 2)
                    + k_extra1 self"
    and arrays: "get_predict_arrays ext (as_count_model self) exog0 offset0 exposure0
                   = (exog1, offset1, exposure1)"
    and lin: "(case dot exog1 (take (ncols (exog self)) (slice_from k params)) of
                 Inl e \<Rightarrow> Inl e
               | Inr fitted \<Rightarrow>
                   (case add_arr fitted exposure1 of
                      Inl e \<Rightarrow> Inl e
                    | Inr fe \<Rightarrow> add_arr fe offset1)) = Inr lin_pred"
    and mu1: "CountModel_predict ext (as_count_model (model1 self)) (slice_to k params)
                (Some exog1) = Inr mu1"
    and pm: "bc_prob_nonzero (cens_main_class (model1 self)) (cens_model_main (model1 self))
               mu1 (slice_to k params) = Inr prob_main"
    and pn: "bc_prob_nonzero (cens_main_class (model1 self)) (cens_model_main (model1 self))
               (map exp lin_pred) (slice_from k params) = Inr prob_ntrunc"
  shows "Hurdle_loglike self params =
           (case censored_loglike (model1 self) (slice_to k params) of
              Inl e \<Rightarrow> Inl e
            | Inr l1 \<Rightarrow> Inr (l1 + loglike (model2 self) (slice_from k params)))
       \<and> Hurdle_predict ext self params exog0 exog_zero0 exposure0 offset0 ''linear'' y_values
           = Inr (PVec lin_pred)
       \<and> Hurdle_predict ext self params exog0 exog_zero0 exposure0 offset0 ''prob-main'' y_values
           = Inr (PVec prob_main)
       \<and> (int (length params) - k_extra1 self - k_extra2 self = 2 * m
            \<longrightarrow> k = m + k_extra1 self)
       \<and> (length params = 7 \<and> k_extra1 self = 0 \<and> k_extra2 self = 1
            \<longrightarrow> k = 3 \<and> slice_to k params = take 3 params
                \<and> slice_from k params = drop 3 params)"
proof -
  have a: "Hurdle_loglike self params =
           (case censored_loglike (model1 self) (slice_to k params) of
              Inl e \<Rightarrow> Inl e
            | Inr l1 \<Rightarrow> Inr (l1 + loglike (model2 self) (slice_from k params)))"
    unfolding Hurdle_loglike_def Let_def k by (rule refl)
  have b: "Hurdle_predict ext self params exog0 exog_zero0 exposure0 offset0 ''linear'' y_values
           = Inr (PVec lin_pred)"
    using lin arrays mu1 pm pn unfolding k
    by (auto simp: Hurdle_predict_def Let_def lower_examples split: sum.splits)
  have c: "Hurdle_predict ext self params exog0 exog_zero0 exposure0 offset0 ''prob-main'' y_values
           = Inr (PVec prob_main)"
    using lin arrays mu1 pm pn unfolding k
    by (auto simp: Hurdle_predict_def Let_def lower_examples split: sum.splits)
  have d: "int (length params) - k_extra1 self - k_extra2 self = 2 * m \<longrightarrow> k = m + k_extra1 self"
    by (simp add: k py_int_of_int)
  have e: "length params = 7 \<and> k_extra1 self = 0 \<and> k_extra2 self = 1
            \<longrightarrow> k = 3 \<and> slice_to k params = take 3 params
                \<and> slice_from k params = drop 3 params"
    by (simp add: k py_int_def slice_to_def slice_from_def)
  from a b c d e show ?thesis by blast
qed

text \<open>The claim at the example hurdle model after one fit (\<open>k_extra2 = 1\<close>), with seven
  parameters and the model's own data: the split is at 3, the linear predictor of the
  rows is that of the coefficients \<open>params[3:6]\<close>, and the probability of the positive path
  is that of the zero stage at \<open>params[:3]\<close>.\<close>

theorem hurdle_split_index_witness:
  "\<forall>rest negbin_pmf.
     (3::int) = py_int (of_int (int (length [0, 0, 0, 1, 2, 3, 1 :: real])
                         - k_extra1 ((example_hurdle (example_ext rest negbin_pmf))\<lparr>k_extra2 := 1\<rparr>)
                         - k_extra2 ((example_hurdle (example_ext rest negbin_pmf))\<lparr>k_extra2 := 1\<rparr>))
                        / 2)
                + k_extra1 ((example_hurdle (example_ext rest negbin_pmf))\<lparr>k_extra2 := 1\<rparr>)
   \<and> get_predict_arrays (example_ext rest negbin_pmf)
        (as_count_model ((example_hurdle (example_ext rest negbin_pmf))\<lparr>k_extra2 := 1\<rparr>))
        None None None = (example_X3, Scalar 0, Scalar 0)
   \<and> CountModel_predict (example_ext rest negbin_pmf)
        (as_count_model (model1 ((example_hurdle (example_ext rest negbin_pmf))\<lparr>k_extra2 := 1\<rparr>)))
        [0, 0, 0] (Some example_X3) = Inr [1, 1, 1]
   \<and> Hurdle_predict (example_ext rest negbin_pmf)
        ((example_hurdle (example_ext rest negbin_pmf))\<lparr>k_extra2 := 1\<rparr>)
        [0, 0, 0, 1, 2, 3, 1] None None None None ''linear'' None = Inr (PVec [1, 3, 4])
   \<and> Hurdle_predict (example_ext rest negbin_pmf)
        ((example_hurdle (example_ext rest negbin_pmf))\<lparr>k_extra2 := 1\<rparr>)
        [0, 0, 0, 1, 2, 3, 1] None None None None ''prob-main'' None
       = Inr (PVec [1 - exp (- 1), 1 - exp (- 1), 1 - exp (- 1)])
   \<and> Hurdle_loglike ((example_hurdle (example_ext rest negbin_pmf))\<lparr>k_extra2 := 1\<rparr>)
        [0, 0, 0, 1, 2, 3, 1]
       = (case censored_loglike (model1 (example_hurdle (example_ext rest negbin_pmf))) [0, 0, 0] of
            Inl e \<Rightarrow> Inl e
          | Inr l1 \<Rightarrow> Inr (l1 + loglike (model2 (example_hurdle (example_ext rest negbin_pmf)))
                                   [1, 2, 3, 1]))"
proof (intro allI)
  fix rest negbin_pmf
  let ?ext = "example_ext rest negbin_pmf"
  let ?self = "(example_hurdle ?ext)\<lparr>k_extra2 := 1\<rparr>"
  let ?params = "[0, 0, 0, 1, 2, 3, 1 :: real]"
  let ?pm = "[1 - exp (- 1), 1 - exp (- 1), 1 - exp (- 1 :: real)]"
  let ?pn = "[1 - exp (- exp 1), 1 - exp (- exp 3), 1 - exp (- exp (4 :: real))]"
  have f: "k_extra1 ?self = 0" "k_extra2 ?self = 1" "exog ?self = example_X3"
    "model1 ?self = model1 (example_hurdle ?ext)" "model2 ?self = model2 (example_hurdle ?ext)"
    by (simp_all add: example_hurdle_def)
  have cls: "cens_main_class (model1 (example_hurdle ?ext)) = Poisson_class"
    by (simp add: example_hurdle_def example_ext_def Censored_init_def censored_with_def)
  have s: "slice_to 3 ?params = [0, 0, 0]" "slice_from 3 ?params = [1, 2, 3, 1]"
    by (simp_all add: slice_to_def slice_from_def)
  have h1: "(3::int) = py_int (of_int (int (length ?params)
                         - k_extra1 ?self - k_extra2 ?self) / 2) + k_extra1 ?self"
    by (simp add: example_hurdle_def py_int_def)
  have h2: "get_predict_arrays ?ext (as_count_model ?self) None None None
              = (example_X3, Scalar 0, Scalar 0)"
    by (simp add: example_ext_def count_get_predict_arrays_def as_count_model_def
        example_hurdle_def)
  have h3: "(case dot example_X3 (take (ncols (exog ?self)) (slice_from 3 ?params)) of
                 Inl e \<Rightarrow> Inl e
               | Inr fitted \<Rightarrow>
                   (case add_arr fitted (Scalar 0) of
                      Inl e \<Rightarrow> Inl e
                    | Inr fe \<Rightarrow> add_arr fe (Scalar 0))) = Inr [1, 3, 4]"
    unfolding f
    by (simp add: example_X3_def ncols_def slice_from_def dot_def row_dot_def add_arr_def)
  have h4: "CountModel_predict ?ext (as_count_model (model1 ?self)) (slice_to 3 ?params)
              (Some example_X3) = Inr [1, 1, 1]"
    unfolding s
    by (simp add: example_ext_def count_predict_def example_X3_def ncols_def dot_def
        row_dot_def)
  have h5: "bc_prob_nonzero (cens_main_class (model1 ?self)) (cens_model_main (model1 ?self))
              [1, 1, 1] (slice_to 3 ?params) = Inr ?pm"
    unfolding f cls by (simp add: Poisson_class_def poisson_prob_nonzero_def)
  have h6: "bc_prob_nonzero (cens_main_class (model1 ?self)) (cens_model_main (model1 ?self))
              (map exp [1, 3, 4]) (slice_from 3 ?params) = Inr ?pn"
    unfolding f cls by (simp add: Poisson_class_def poisson_prob_nonzero_def)
  have concl: "Hurdle_loglike ?self ?params =
           (case censored_loglike (model1 ?self) (slice_to 3 ?params) of
              Inl e \<Rightarrow> Inl e
            | Inr l1 \<Rightarrow> Inr (l1 + loglike (model2 ?self) (slice_from 3 ?params)))
       \<and> Hurdle_predict ?ext ?self ?params None None None None ''linear'' None
           = Inr (PVec [1, 3, 4])
       \<and> Hurdle_predict ?ext ?self ?params None None None None ''prob-main'' None
           = Inr (PVec ?pm)"
    using hurdle_split_index[where k = 3 and params = ?params and self = ?self and ext = ?ext
        and ?exog0.0 = None and ?offset0.0 = None and ?exposure0.0 = None
        and ?exog1.0 = example_X3 and ?offset1.0 = "Scalar 0" and ?exposure1.0 = "Scalar 0"
        and lin_pred = "[1, 3, 4]" and ?mu1.0 = "[1, 1, 1]" and prob_main = ?pm
        and prob_ntrunc = ?pn and ?exog_zero0.0 = None and y_values = None and m = 3,
        OF h1 h2 h3 h4 h5 h6]
    by blast
  show "(3::int) = py_int (of_int (int (length ?params)
                         - k_extra1 ?self - k_extra2 ?self) / 2) + k_extra1 ?self
   \<and> get_predict_arrays ?ext (as_count_model ?self) None None None
        = (example_X3, Scalar 0, Scalar 0)
   \<and> CountModel_predict ?ext (as_count_model (model1 ?self)) [0, 0, 0] (Some example_X3)
        = Inr [1, 1, 1]
   \<and> Hurdle_predict ?ext ?self ?params None None None None ''linear'' None
        = Inr (PVec [1, 3, 4])
   \<and> Hurdle_predict ?ext ?self ?params None None None None ''prob-main'' None
        = Inr (PVec ?pm)
   \<and> Hurdle_loglike ?self ?params
       = (case censored_loglike (model1 (example_hurdle ?ext)) [0, 0, 0] of
            Inl e \<Rightarrow> Inl e
          | Inr l1 \<Rightarrow> Inr (l1 + loglike (model2 (example_hurdle ?ext)) [1, 2, 3, 1]))"
    using h1 h2 h4 concl unfolding s f by blast
qed

text \<open>Where the parameters of the zero stage do not fit the regressors, \<^verbatim>\<open>predict\<close> raises
  whatever is asked for: the hurdle model with Poisson stages and the single parameter 5
  splits at \<open>k = 0\<close>, and the prediction of the zero stage fails on the empty
  \<open>params[:0]\<close>.\<close>

lemma hurdle_predict_raises_on_short_params:
  "Hurdle_predict (example_ext rest pmf) (example_hurdle_pp (example_ext rest pmf))
     [5] None None None None ''linear'' None = Inl (ValueError ''shapes not aligned'')"
proof -
  have k: "py_int (1 / 2) = 0" by (simp add: py_int_def)
  have f: "k_extra1 (example_hurdle_pp (example_ext rest pmf)) = 0"
    "k_extra2 (example_hurdle_pp (example_ext rest pmf)) = 0"
    "exog (example_hurdle_pp (example_ext rest pmf)) = [[1], [1], [1]]"
    by (simp_all add: example_hurdle_pp_def)
  have g: "get_predict_arrays (example_ext rest pmf)
             (as_count_model (example_hurdle_pp (example_ext rest pmf))) None None None
           = ([[1], [1], [1]], Scalar 0, Scalar 0)"
    by (simp add: example_ext_def count_get_predict_arrays_def as_count_model_def
        example_hurdle_pp_def)
  have c: "CountModel_predict (example_ext rest pmf) = count_predict"
    by (simp add: example_ext_def)
  show ?thesis
    by (simp add: Hurdle_predict_def Let_def f g k c slice_to_def slice_from_def
        ncols_def dot_def row_dot_def add_arr_def count_predict_def)
qed

section \<open>The method argument of fit\<close>

text \<open>
  Claim C9: the \<^verbatim>\<open>fit\<close> of a censored model returns the same for any two values of its
  \<^verbatim>\<open>method\<close> argument, all else equal: the call of the superclass \<^verbatim>\<open>fit\<close> carries no
  method (\<open>fc_method = None\<close>, so the default of the superclass applies), whereas the
  \<^verbatim>\<open>fit\<close> of a truncated model passes its \<^verbatim>\<open>method\<close> on (\<open>fc_method = Some m1\<close>).
\<close>

theorem censored_fit_ignores_method:
  "GenericCensored_fit super_fit main_fit self (args\<lparr>fa_method := m1\<rparr>)
     = GenericCensored_fit super_fit main_fit self (args\<lparr>fa_method := m2\<rparr>)
   \<and> GenericCensored_fit super_fit main_fit self
       (args\<lparr>fa_start_params := Some sp, fa_method := m1\<rparr>)
     = Inr \<lparr>fr_mlefit = super_fit self
                \<lparr>fc_start_params = sp, fc_method = None, fc_maxiter = fa_maxiter args,
                 fc_disp = fa_disp args, fc_full_output = fa_full_output args,
                 fc_kwargs = fa_kwargs args\<rparr>,
            fr_cov_type = fa_cov_type args, fr_use_t = fa_use_t args,
            fr_cov_kwds = (case fa_cov_kwds args of None \<Rightarrow> [] | Some kw \<Rightarrow> kw)\<rparr>
   \<and> GenericTruncated_fit super_fit2 main_fit self2
       (args\<lparr>fa_start_params := Some sp, fa_method := m1\<rparr>)
     = Inr \<lparr>fr_mlefit = super_fit2 self2
                \<lparr>fc_start_params = sp, fc_method = Some m1, fc_maxiter = fa_maxiter args,
                 fc_disp = fa_disp args, fc_full_output = fa_full_output args,
                 fc_kwargs = fa_kwargs args\<rparr>,
            fr_cov_type = fa_cov_type args, fr_use_t = fa_use_t args,
            fr_cov_kwds = (case fa_cov_kwds args of None \<Rightarrow> [] | Some kw \<Rightarrow> kw)\<rparr>"
  by (simp add: GenericCensored_fit_def GenericTruncated_fit_def Let_def
      split: sum.splits option.splits)

section \<open>Fitting a hurdle model more than once\<close>

lemma Hurdle_init_submodels:
  assumes "Hurdle_init ext endog0 exog0 off0 dist0 zerodist0 p pzero ex0 = Inr self"
  shows "offset (model1 self) = None" "exposure (model1 self) = None"
        "offset (model2 self) = None" "exposure (model2 self) = None"
        "k_extra1 self = 0" "k_extra2 self = 0"
  using assms
  by (auto simp: Hurdle_init_def Let_def Censored_init_def censored_with_def
      GenericCensored_init_def CountModel_init_def TruncatedPoisson_init_def
      TruncatedNegativeBinomialP_init_def GenericTruncated_init_def split: if_splits)

lemma default_start_params_plain:
  "offset self = None \<Longrightarrow> exposure self = None \<Longrightarrow>
   default_start_params f self
     = Inr (f \<lparr>a_endog = endog self, a_exog = exog self, a_offset = None, a_exposure = None,
              a_p = None\<rparr>)"
  by (simp add: default_start_params_def add_arr2_def arr_size_def arr_is_zero_def)

text \<open>One call of \<^verbatim>\<open>fit\<close>, on a model whose stages have neither offset nor exposure: it
  returns, and it leaves the model with the two counts raised by what the results of the
  stages report.\<close>

lemma Hurdle_fit_step:
  assumes off: "offset (model1 self) = None" "exposure (model1 self) = None"
        "offset (model2 self) = None" "exposure (model2 self) = None"
    and sp1: "sp1 = (case fa_start_params args of
                       Some sp \<Rightarrow> sp
                     | None \<Rightarrow> main_fit (cens_main_class (model1 self))
                                \<lparr>a_endog = endog (model1 self), a_exog = exog (model1 self),
                                 a_offset = None, a_exposure = None, a_p = None\<rparr>)"
    and sp2: "sp2 = (case fa_start_params args of
                       Some sp \<Rightarrow> sp
                     | None \<Rightarrow> main_fit (main_class (model2 self))
                                \<lparr>a_endog = endog (model2 self), a_exog = exog (model2 self),
                                 a_offset = None, a_exposure = None, a_p = None\<rparr>)"
    and e1: "e1 = (case res_k_extra (super_fit1 (model1 self)
                       \<lparr>fc_start_params = sp1, fc_method = None, fc_maxiter = fa_maxiter args,
                        fc_disp = fa_disp args, fc_full_output = fa_full_output args,
                        fc_kwargs = fa_kwargs args\<rparr>) of None \<Rightarrow> 0 | Some k \<Rightarrow> k)"
    and e2: "e2 = (case res_k_extra (super_fit2 (model2 self)
                       \<lparr>fc_start_params = sp2, fc_method = Some (fa_method args),
                        fc_maxiter = fa_maxiter args,
                        fc_disp = fa_disp args, fc_full_output = fa_full_output args,
                        fc_kwargs = fa_kwargs args\<rparr>) of None \<Rightarrow> 0 | Some k \<Rightarrow> k)"
  shows "\<exists>result. Hurdle_fit super_fit1 super_fit2 main_fit self args
           = Inr (result, self\<lparr>k_extra1 := k_extra1 self + e1, k_extra2 := k_extra2 self + e2,
                              k_extra_sum := Some (k_extra1 self + e1 + (k_extra2 self + e2) + 1)\<rparr>)"
  unfolding e1 e2 sp1 sp2 using off
  by (cases "fa_start_params args")
     (simp_all add: Hurdle_fit_def GenericCensored_fit_def GenericTruncated_fit_def Let_def
        fit_defaults_def default_start_params_plain)

lemma Hurdle_fit_times_gen:
  assumes off: "offset (model1 self) = None" "exposure (model1 self) = None"
        "offset (model2 self) = None" "exposure (model2 self) = None"
    and sp1: "sp1 = (case fa_start_params args of
                       Some sp \<Rightarrow> sp
                     | None \<Rightarrow> main_fit (cens_main_class (model1 self))
                                \<lparr>a_endog = endog (model1 self), a_exog = exog (model1 self),
                                 a_offset = None, a_exposure = None, a_p = None\<rparr>)"
    and sp2: "sp2 = (case fa_start_params args of
                       Some sp \<Rightarrow> sp
                     | None \<Rightarrow> main_fit (main_class (model2 self))
                                \<lparr>a_endog = endog (model2 self), a_exog = exog (model2 self),
                                 a_offset = None, a_exposure = None, a_p = None\<rparr>)"
    and e1: "e1 = (case res_k_extra (super_fit1 (model1 self)
                       \<lparr>fc_start_params = sp1, fc_method = None, fc_maxiter = fa_maxiter args,
                        fc_disp = fa_disp args, fc_full_output = fa_full_output args,
                        fc_kwargs = fa_kwargs args\<rparr>) of None \<Rightarrow> 0 | Some k \<Rightarrow> k)"
    and e2: "e2 = (case res_k_extra (super_fit2 (model2 self)
                       \<lparr>fc_start_params = sp2, fc_method = Some (fa_method args),
                        fc_maxiter = fa_maxiter args,
                        fc_disp = fa_disp args, fc_full_output = fa_full_output args,
                        fc_kwargs = fa_kwargs args\<rparr>) of None \<Rightarrow> 0 | Some k \<Rightarrow> k)"
  shows "\<exists>self'. Hurdle_fit_times n super_fit1 super_fit2 main_fit self args = Inr self'
           \<and> k_extra1 self' = k_extra1 self + int n * e1
           \<and> k_extra2 self' = k_extra2 self + int n * e2
           \<and> model1 self' = model1 self \<and> model2 self' = model2 self"
  using assms
proof (induction n arbitrary: self)
  case 0
  then show ?case by simp
next
  case (Suc n)
  define self1 where "self1 = self\<lparr>k_extra1 := k_extra1 self + e1, k_extra2 := k_extra2 self + e2,
                              k_extra_sum := Some (k_extra1 self + e1 + (k_extra2 self + e2) + 1)\<rparr>"
  have "\<exists>result. Hurdle_fit super_fit1 super_fit2 main_fit self args = Inr (result, self1)"
    unfolding self1_def
    by (rule Hurdle_fit_step[where ?sp1.0 = sp1 and ?sp2.0 = sp2]) (fact Suc.prems)+
  then obtain result where
    step: "Hurdle_fit super_fit1 super_fit2 main_fit self args = Inr (result, self1)"
    by blast
  have m: "model1 self1 = model1 self" "model2 self1 = model2 self"
    by (simp_all add: self1_def)
  have "\<exists>self'. Hurdle_fit_times n super_fit1 super_fit2 main_fit self1 args = Inr self'
           \<and> k_extra1 self' = k_extra1 self1 + int n * e1
           \<and> k_extra2 self' = k_extra2 self1 + int n * e2
           \<and> model1 self' = model1 self1 \<and> model2 self' = model2 self1"
    by (rule Suc.IH[where self = self1]) (fact Suc.prems[folded m])+
  then show ?case
    by (auto simp: step m self1_def algebra_simps)
qed

text \<open>
  Claim C10: every call of \<^verbatim>\<open>Hurdle.fit\<close> adds the \<^verbatim>\<open>k_extra\<close> of the two stage results to
  \<open>k_extra1\<close> and \<open>k_extra2\<close>. On a model as the constructor builds it, \<open>n\<close> calls of \<^verbatim>\<open>fit\<close>
  with the same arguments all return and leave \<open>k_extra1 = n e1\<close> and \<open>k_extra2 = n e2\<close>,
  where \<open>e1\<close> and \<open>e2\<close> are what the stage results report (0 when a result has no
  \<^verbatim>\<open>k_extra\<close>); the log-likelihood then splits the parameters at the index computed from
  these \<open>n\<close>-fold counts, so that the split depends on \<open>n\<close>.
\<close>

theorem hurdle_fit_accumulates_k_extra:
  assumes init: "Hurdle_init ext endog0 exog0 off0 dist0 zerodist0 p pzero ex0 = Inr self"
    and sp1: "sp1 = (case fa_start_params args of
                       Some sp \<Rightarrow> sp
                     | None \<Rightarrow> main_fit (cens_main_class (model1 self))
                                \<lparr>a_endog = endog (model1 self), a_exog = exog (model1 self),
                                 a_offset = None, a_exposure = None, a_p = None\<rparr>)"
    and sp2: "sp2 = (case fa_start_params args of
                       Some sp \<Rightarrow> sp
                     | None \<Rightarrow> main_fit (main_class (model2 self))
                                \<lparr>a_endog = endog (model2 self), a_exog = exog (model2 self),
                                 a_offset = None, a_exposure = None, a_p = None\<rparr>)"
    and e1: "e1 = (case res_k_extra (super_fit1 (model1 self)
                       \<lparr>fc_start_params = sp1, fc_method = None, fc_maxiter = fa_maxiter args,
                        fc_disp = fa_disp args, fc_full_output = fa_full_output args,
                        fc_kwargs = fa_kwargs args\<rparr>) of None \<Rightarrow> 0 | Some k \<Rightarrow> k)"
    and e2: "e2 = (case res_k_extra (super_fit2 (model2 self)
                       \<lparr>fc_start_params = sp2, fc_method = Some (fa_method args),
                        fc_maxiter = fa_maxiter args,
                        fc_disp = fa_disp args, fc_full_output = fa_full_output args,
                        fc_kwargs = fa_kwargs args\<rparr>) of None \<Rightarrow> 0 | Some k \<Rightarrow> k)"
  shows "\<exists>self'. Hurdle_fit_times n super_fit1 super_fit2 main_fit self args = Inr self'
           \<and> k_extra1 self' = int n * e1
           \<and> k_extra2 self' = int n * e2
           \<and> Hurdle_loglike self' params =
               (let k = py_int (of_int (int (length params) - int n * e1 - int n * e2) / 2)
                          + int n * e1
                in case censored_loglike (model1 self) (slice_to k params) of
                     Inl e \<Rightarrow> Inl e
                   | Inr l1 \<Rightarrow> Inr (l1 + loglike (model2 self) (slice_from k params)))"
proof -
  note sub = Hurdle_init_submodels[OF init]
  have "\<exists>self'. Hurdle_fit_times n super_fit1 super_fit2 main_fit self args = Inr self'
           \<and> k_extra1 self' = k_extra1 self + int n * e1
           \<and> k_extra2 self' = k_extra2 self + int n * e2
           \<and> model1 self' = model1 self \<and> model2 self' = model2 self"
    by (rule Hurdle_fit_times_gen[where ?sp1.0 = sp1 and ?sp2.0 = sp2])
       (fact sub sp1 sp2 e1 e2)+
  then obtain self' where
    s: "Hurdle_fit_times n super_fit1 super_fit2 main_fit self args = Inr self'"
       "k_extra1 self' = int n * e1" "k_extra2 self' = int n * e2"
       "model1 self' = model1 self" "model2 self' = model2 self"
    using sub(5,6) by auto
  have "Hurdle_loglike self' params =
               (let k = py_int (of_int (int (length params) - int n * e1 - int n * e2) / 2)
                          + int n * e1
                in case censored_loglike (model1 self) (slice_to k params) of
                     Inl e \<Rightarrow> Inl e
                   | Inr l1 \<Rightarrow> Inr (l1 + loglike (model2 self) (slice_from k params)))"
    unfolding Hurdle_loglike_def s by (rule refl)
  with s show ?thesis by blast
qed

text \<open>The claim at the example hurdle model, with the default arguments of \<^verbatim>\<open>fit\<close>, a
  zero-stage result without \<^verbatim>\<open>k_extra\<close> and a positive-stage result with \<^verbatim>\<open>k_extra = 1\<close>:
  after one call seven parameters are split at 3, after two calls at 2.\<close>

theorem hurdle_fit_accumulates_k_extra_witness:
  "\<forall>rest negbin_pmf main_fit.
     Hurdle_init (example_ext rest negbin_pmf) [0, 1, 2] example_X3 None ''negbin'' ''poisson''
       2 2 None = Inr (example_hurdle (example_ext rest negbin_pmf))
   \<and> (\<exists>self1 self2.
         Hurdle_fit_times 1 (example_optimizer None) (example_optimizer (Some 1)) main_fit
           (example_hurdle (example_ext rest negbin_pmf)) fit_defaults = Inr self1
       \<and> k_extra1 self1 = 0 \<and> k_extra2 self1 = 1
       \<and> Hurdle_loglike self1 [0, 0, 0, 1, 2, 3, 1]
           = (case censored_loglike (model1 (example_hurdle (example_ext rest negbin_pmf)))
                     [0, 0, 0] of
                Inl e \<Rightarrow> Inl e
              | Inr l1 \<Rightarrow>
                  Inr (l1 + loglike (model2 (example_hurdle (example_ext rest negbin_pmf)))
                              [1, 2, 3, 1]))
       \<and> Hurdle_fit_times 2 (example_optimizer None) (example_optimizer (Some 1)) main_fit
           (example_hurdle (example_ext rest negbin_pmf)) fit_defaults = Inr self2
       \<and> k_extra1 self2 = 0 \<and> k_extra2 self2 = 2
       \<and> Hurdle_loglike self2 [0, 0, 0, 1, 2, 3, 1]
           = (case censored_loglike (model1 (example_hurdle (example_ext rest negbin_pmf)))
                     [0, 0] of
                Inl e \<Rightarrow> Inl e
              | Inr l1 \<Rightarrow>
                  Inr (l1 + loglike (model2 (example_hurdle (example_ext rest negbin_pmf)))
                              [0, 1, 2, 3, 1])))"
proof (intro allI)
  fix rest negbin_pmf and main_fit :: "base_class \<Rightarrow> main_args \<Rightarrow> vec"
  let ?ext = "example_ext rest negbin_pmf"
  let ?self = "example_hurdle ?ext"
  let ?params = "[0, 0, 0, 1, 2, 3, 1 :: real]"
  let ?sp1 = "main_fit (cens_main_class (model1 ?self))
                \<lparr>a_endog = endog (model1 ?self), a_exog = exog (model1 ?self),
                 a_offset = None, a_exposure = None, a_p = None\<rparr>"
  let ?sp2 = "main_fit (main_class (model2 ?self))
                \<lparr>a_endog = endog (model2 ?self), a_exog = exog (model2 ?self),
                 a_offset = None, a_exposure = None, a_p = None\<rparr>"
  have init: "Hurdle_init ?ext [0, 1, 2] example_X3 None ''negbin'' ''poisson'' 2 2 None
                = Inr ?self"
    by (rule example_hurdle_init)
  have sp1: "?sp1 = (case fa_start_params fit_defaults of Some sp \<Rightarrow> sp | None \<Rightarrow> ?sp1)"
    and sp2: "?sp2 = (case fa_start_params fit_defaults of Some sp \<Rightarrow> sp | None \<Rightarrow> ?sp2)"
    by (simp_all add: fit_defaults_def)
  have e1: "(0::int) = (case res_k_extra (example_optimizer None (model1 ?self)
                       \<lparr>fc_start_params = ?sp1, fc_method = None,
                        fc_maxiter = fa_maxiter fit_defaults,
                        fc_disp = fa_disp fit_defaults,
                        fc_full_output = fa_full_output fit_defaults,
                        fc_kwargs = fa_kwargs fit_defaults\<rparr>) of None \<Rightarrow> 0 | Some k \<Rightarrow> k)"
    by (simp add: example_optimizer_def)
  have e2: "(1::int) = (case res_k_extra (example_optimizer (Some 1) (model2 ?self)
                       \<lparr>fc_start_params = ?sp2, fc_method = Some (fa_method fit_defaults),
                        fc_maxiter = fa_maxiter fit_defaults,
                        fc_disp = fa_disp fit_defaults,
                        fc_full_output = fa_full_output fit_defaults,
                        fc_kwargs = fa_kwargs fit_defaults\<rparr>) of None \<Rightarrow> 0 | Some k \<Rightarrow> k)"
    by (simp add: example_optimizer_def)
  note acc = hurdle_fit_accumulates_k_extra[where self = ?self and args = fit_defaults
      and main_fit = main_fit and ?sp1.0 = ?sp1 and ?sp2.0 = ?sp2 and ?e1.0 = 0 and ?e2.0 = 1
      and ?super_fit1.0 = "example_optimizer None"
      and ?super_fit2.0 = "example_optimizer (Some 1)" and params = ?params,
      OF init sp1 sp2 e1 e2]
  have s: "slice_to 3 ?params = [0, 0, 0]" "slice_from 3 ?params = [1, 2, 3, 1]"
    "slice_to 2 ?params = [0, 0]" "slice_from 2 ?params = [0, 1, 2, 3, 1]"
    by (simp_all add: slice_to_def slice_from_def)
  have k3: "py_int (of_int (int (length ?params) - int 1 * 0 - int 1 * 1) / 2) + int 1 * 0 = 3"
    and k2: "py_int (of_int (int (length ?params) - int 2 * 0 - int 2 * 1) / 2) + int 2 * 0 = 2"
    by (simp_all add: py_int_def)
  from acc[of 1] obtain self1 where
    a0: "Hurdle_fit_times 1 (example_optimizer None) (example_optimizer (Some 1)) main_fit
          ?self fit_defaults = Inr self1"
       "k_extra1 self1 = int 1 * 0" "k_extra2 self1 = int 1 * 1"
       "Hurdle_loglike self1 ?params =
               (let k = py_int (of_int (int (length ?params) - int 1 * 0 - int 1 * 1) / 2)
                          + int 1 * 0
                in case censored_loglike (model1 ?self) (slice_to k ?params) of
                     Inl e \<Rightarrow> Inl e
                   | Inr l1 \<Rightarrow> Inr (l1 + loglike (model2 ?self) (slice_from k ?params)))"
    by blast
  have a: "k_extra1 self1 = 0" "k_extra2 self1 = 1"
       "Hurdle_loglike self1 ?params
           = (case censored_loglike (model1 ?self) [0, 0, 0] of
                Inl e \<Rightarrow> Inl e
              | Inr l1 \<Rightarrow> Inr (l1 + loglike (model2 ?self) [1, 2, 3, 1]))"
    using a0(2,3) a0(4)[unfolded k3 Let_def s] by simp_all
  from acc[of 2] obtain self2 where
    b0: "Hurdle_fit_times 2 (example_optimizer None) (example_optimizer (Some 1)) main_fit
          ?self fit_defaults = Inr self2"
       "k_extra1 self2 = int 2 * 0" "k_extra2 self2 = int 2 * 1"
       "Hurdle_loglike self2 ?params =
               (let k = py_int (of_int (int (length ?params) - int 2 * 0 - int 2 * 1) / 2)
                          + int 2 * 0
                in case censored_loglike (model1 ?self) (slice_to k ?params) of
                     Inl e \<Rightarrow> Inl e
                   | Inr l1 \<Rightarrow> Inr (l1 + loglike (model2 ?self) (slice_from k ?params)))"
    by blast
  have b: "k_extra1 self2 = 0" "k_extra2 self2 = 2"
       "Hurdle_loglike self2 ?params
           = (case censored_loglike (model1 ?self) [0, 0] of
                Inl e \<Rightarrow> Inl e
              | Inr l1 \<Rightarrow> Inr (l1 + loglike (model2 ?self) [0, 1, 2, 3, 1]))"
    using b0(2,3) b0(4)[unfolded k2 Let_def s] by simp_all
  from init a0(1) a b0(1) b show
    "Hurdle_init ?ext [0, 1, 2] example_X3 None ''negbin'' ''poisson'' 2 2 None = Inr ?self
   \<and> (\<exists>self1 self2.
         Hurdle_fit_times 1 (example_optimizer None) (example_optimizer (Some 1)) main_fit
           ?self fit_defaults = Inr self1
       \<and> k_extra1 self1 = 0 \<and> k_extra2 self1 = 1
       \<and> Hurdle_loglike self1 ?params
           = (case censored_loglike (model1 ?self) [0, 0, 0] of
                Inl e \<Rightarrow> Inl e
              | Inr l1 \<Rightarrow> Inr (l1 + loglike (model2 ?self) [1, 2, 3, 1]))
       \<and> Hurdle_fit_times 2 (example_optimizer None) (example_optimizer (Some 1)) main_fit
           ?self fit_defaults = Inr self2
       \<and> k_extra1 self2 = 0 \<and> k_extra2 self2 = 2
       \<and> Hurdle_loglike self2 ?params
           = (case censored_loglike (model1 ?self) [0, 0] of
                Inl e \<Rightarrow> Inl e
              | Inr l1 \<Rightarrow> Inr (l1 + loglike (model2 ?self) [0, 1, 2, 3, 1])))"
    by blast
qed

section \<open>The conditional mean of the truncated Generalized-Poisson model\<close>

lemma linpred_of_plain:
  assumes "list_all (\<lambda>row. length row = ncols A) A" "ncols A \<le> length params"
  shows "linpred_of A params (Scalar 0) (Scalar 0)
           = Inr (map (\<lambda>row. row_dot row (take (ncols A) params)) A)"
proof -
  have "list_all (\<lambda>row. length row = length (take (ncols A) params)) A"
    using assms by (simp add: min_def)
  then show ?thesis
    by (simp add: linpred_of_def dot_def add_arr_def comp_def)
qed

text \<open>
  Claim C8: for a truncated Generalized-Poisson model with a truncation point above zero,
  \<^verbatim>\<open>predict(which='mean')\<close> never returns a value: it ends in an error for every parameter
  vector and all other arguments. The error is the not-implemented error whenever the
  linear predictor evaluates, which it does in particular for the model's own data without
  offset and exposure and a parameter vector that covers the regressors.
\<close>

theorem generalized_poisson_mean_not_implemented:
  assumes "truncation self > 0"
  shows "(\<exists>e. TruncatedGeneralizedPoisson_predict self params exog0 exposure0 offset0 ''mean''
                count_prob = Inl e)
       \<and> (GP_arrays self exog0 exposure0 offset0 = Inr (exog1, offset1, exposure1)
            \<and> linpred_of exog1 params offset1 exposure1 = Inr linpred
          \<longrightarrow> TruncatedGeneralizedPoisson_predict self params exog0 exposure0 offset0 ''mean''
                count_prob = Inl (NotImplementedError ''conditional mean not implemented''))
       \<and> (list_all (\<lambda>row. length row = ncols (exog self)) (exog self)
            \<and> ncols (exog self) \<le> length params
            \<and> offset self = None \<and> exposure self = None
          \<longrightarrow> TruncatedGeneralizedPoisson_predict self params None None None ''mean''
                count_prob = Inl (NotImplementedError ''conditional mean not implemented''))"
proof -
  have a: "\<exists>e. TruncatedGeneralizedPoisson_predict self params exog0 exposure0 offset0 ''mean''
                count_prob = Inl e"
    using assms
    by (auto simp: TruncatedGeneralizedPoisson_predict_def split: sum.splits prod.splits)
  have b: "GP_arrays self exog0 exposure0 offset0 = Inr (exog1, offset1, exposure1)
            \<and> linpred_of exog1 params offset1 exposure1 = Inr linpred
          \<longrightarrow> TruncatedGeneralizedPoisson_predict self params exog0 exposure0 offset0 ''mean''
                count_prob = Inl (NotImplementedError ''conditional mean not implemented'')"
    using assms by (simp add: TruncatedGeneralizedPoisson_predict_def)
  have c: "list_all (\<lambda>row. length row = ncols (exog self)) (exog self)
            \<and> ncols (exog self) \<le> length params
            \<and> offset self = None \<and> exposure self = None
          \<longrightarrow> TruncatedGeneralizedPoisson_predict self params None None None ''mean''
                count_prob = Inl (NotImplementedError ''conditional mean not implemented'')"
    using assms
    by (simp add: TruncatedGeneralizedPoisson_predict_def GP_arrays_def linpred_of_plain)
  from a b c show ?thesis by blast
qed

text \<open>The claim at the Generalized-Poisson model truncated at 1, over any base class, with
  the responses \<open>2, 1, 3\<close>, a constant regressor and \<open>params = [0, 1/2]\<close>.\<close>

theorem generalized_poisson_mean_not_implemented_witness:
  "\<forall>cls.
     truncation (TruncatedGeneralizedPoisson_init cls [2, 1, 3] [[1], [1], [1]] None None 1 2) > 0
   \<and> TruncatedGeneralizedPoisson_predict
       (TruncatedGeneralizedPoisson_init cls [2, 1, 3] [[1], [1], [1]] None None 1 2)
       [0, 1 / 2] None None None ''mean'' None
       = Inl (NotImplementedError ''conditional mean not implemented'')"
proof
  fix cls
  let ?self = "TruncatedGeneralizedPoisson_init cls [2, 1, 3] [[1], [1], [1]] None None 1 2"
  have h: "truncation ?self > 0"
    by (simp add: TruncatedGeneralizedPoisson_init_def GenericTruncated_init_def Let_def)
  have w: "list_all (\<lambda>row. length row = ncols (exog ?self)) (exog ?self)
            \<and> ncols (exog ?self) \<le> length [0, 1 / 2 :: real]
            \<and> offset ?self = None \<and> exposure ?self = None"
    by (simp add: TruncatedGeneralizedPoisson_init_def GenericTruncated_init_def
        CountModel_init_def Let_def bool_index_def ncols_def)
  from generalized_poisson_mean_not_implemented[OF h, of "[0, 1 / 2]" None None None None]
    h w
  show "truncation ?self > 0
   \<and> TruncatedGeneralizedPoisson_predict ?self [0, 1 / 2] None None None ''mean'' None
       = Inl (NotImplementedError ''conditional mean not implemented'')"
    by blast
qed

section \<open>The predictions of the hurdle model at concrete inputs\<close>

lemma ext_fields:
  "Poisson (example_ext rest pmf) = Poisson_class"
  "NegativeBinomialP (example_ext rest pmf) = NegativeBinomialP_class rest"
  "truncatedpoisson_pmf (example_ext rest pmf) = truncpoisson_pmf"
  "truncatednegbin_pmf (example_ext rest pmf) = pmf"
  "get_predict_arrays (example_ext rest pmf) = count_get_predict_arrays"
  "CountModel_predict (example_ext rest pmf) = count_predict"
  by (simp_all add: example_ext_def)

lemma example_hurdle_pp_init:
  "Hurdle_init ext [0, 1, 2] [[1], [1], [1]] None ''poisson'' ''poisson'' 2 2 None
     = Inr (example_hurdle_pp ext)"
  by (simp add: Hurdle_init_def example_hurdle_pp_def CountModel_init_def Let_def)

lemma example_hurdle_stages:
  "cens_main_class (model1 (example_hurdle (example_ext rest pmf))) = Poisson_class"
  "cens_model_main (model1 (example_hurdle (example_ext rest pmf)))
     = \<lparr>a_endog = [0, 0, 0], a_exog = example_X3, a_offset = None, a_exposure = None, a_p = None\<rparr>"
  "main_class (model2 (example_hurdle (example_ext rest pmf))) = NegativeBinomialP_class rest"
  "model_main (model2 (example_hurdle (example_ext rest pmf)))
     = \<lparr>a_endog = [1, 2], a_exog = [[1, 1, 0], [1, 0, 1]], a_offset = None, a_exposure = None,
        a_p = Some 2\<rparr>"
  by (simp_all add: example_hurdle_def example_ext_def Censored_init_def censored_with_def
      GenericCensored_init_def CountModel_init_def Let_def
      TruncatedNegativeBinomialP_init_def GenericTruncated_init_def bool_index_def
      example_X3_def)

lemma example_hurdle_pp_stages:
  "cens_main_class (model1 (example_hurdle_pp (example_ext rest pmf))) = Poisson_class"
  "cens_model_main (model1 (example_hurdle_pp (example_ext rest pmf)))
     = \<lparr>a_endog = [0, 0, 0], a_exog = [[1], [1], [1]], a_offset = None, a_exposure = None,
        a_p = None\<rparr>"
  "self_class (model2 (example_hurdle_pp (example_ext rest pmf))) = TruncatedPoisson"
  "trunc (model2 (example_hurdle_pp (example_ext rest pmf))) = 0"
  "endog (model2 (example_hurdle_pp (example_ext rest pmf))) = [1, 2]"
  by (simp_all add: example_hurdle_pp_def example_ext_def Censored_init_def censored_with_def
      GenericCensored_init_def CountModel_init_def Let_def
      TruncatedPoisson_init_def GenericTruncated_init_def bool_index_def)

text \<open>
  Claim C2: \<^verbatim>\<open>Hurdle.predict\<close> is to compute \<open>prob_ntrunc\<close> under the distribution of the
  positive stage. The code takes the \<^verbatim>\<open>_prob_nonzero\<close> of the base instance of the
  \<^emph>\<open>zero\<close> stage (\<^verbatim>\<open>self.model1.model_main\<close>) instead. On the example hurdle model (Poisson
  zero stage, Negative-Binomial positive stage, as \<open>Hurdle_init\<close> builds it) with all
  coefficients 0 and dispersion 1, the code returns the mean 1 for every row, where the
  mean as the specification words it is \<open>2 (1 - e\<^sup>-\<^sup>1)\<close>: the Negative-Binomial probability
  of a nonzero count is \<open>1/2\<close> there, the Poisson one that the code uses \<open>1 - e\<^sup>-\<^sup>1\<close>.
\<close>

theorem hurdle_mean_uses_zero_stage_distribution:
  "Hurdle_predict (example_ext rest pmf) (example_hurdle (example_ext rest pmf))
     [0, 0, 0, 0, 0, 0, 1] None None None None ''mean'' None = Inr (PVec [1, 1, 1])
   \<and> Hurdle_mean_spec (example_ext rest pmf) (example_hurdle (example_ext rest pmf))
       [0, 0, 0, 0, 0, 0, 1] example_X3
       = Inr [2 * (1 - exp (- 1)), 2 * (1 - exp (- 1)), 2 * (1 - exp (- 1))]"
proof -
  have k: "py_int (7 / 2) = 3" by (simp add: py_int_def)
  have f: "k_extra1 (example_hurdle (example_ext rest pmf)) = 0"
    "k_extra2 (example_hurdle (example_ext rest pmf)) = 0"
    "exog (example_hurdle (example_ext rest pmf)) = example_X3"
    by (simp_all add: example_hurdle_def)
  have g: "count_get_predict_arrays
             (as_count_model (example_hurdle (example_ext rest pmf))) None None None
           = (example_X3, Scalar 0, Scalar 0)"
    by (simp add: count_get_predict_arrays_def as_count_model_def example_hurdle_def)
  have s: "slice_to 3 [0, 0, 0, 0, 0, 0, 1 :: real] = [0, 0, 0]"
    "slice_from 3 [0, 0, 0, 0, 0, 0, 1 :: real] = [0, 0, 0, 1]"
    by (simp_all add: slice_to_def slice_from_def)
  have a: "Hurdle_predict (example_ext rest pmf) (example_hurdle (example_ext rest pmf))
     [0, 0, 0, 0, 0, 0, 1] None None None None ''mean'' None = Inr (PVec [1, 1, 1])"
    by (simp add: Hurdle_predict_def Let_def f g k s ext_fields example_hurdle_stages
        lower_def lower_char_def
        example_X3_def ncols_def dot_def row_dot_def add_arr_def count_predict_def
        Poisson_class_def poisson_prob_nonzero_def)
  have b: "Hurdle_mean_spec (example_ext rest pmf) (example_hurdle (example_ext rest pmf))
       [0, 0, 0, 0, 0, 0, 1] example_X3
       = Inr [2 * (1 - exp (- 1)), 2 * (1 - exp (- 1)), 2 * (1 - exp (- 1))]"
    by (simp add: Hurdle_mean_spec_def Let_def f k s ext_fields example_hurdle_stages
        example_X3_def ncols_def dot_def row_dot_def count_predict_def
        Poisson_class_def poisson_prob_nonzero_def NegativeBinomialP_class_def
        negbin_prob_nonzero_def powr_minus)
  from a b show ?thesis by blast
qed

lemma example_truncated_prob:
  "trunc_predict (example_ext rest pmf) (model2 (example_hurdle_pp (example_ext rest pmf))) [0]
     (Some [[1], [1], [1]]) (Some (Scalar 1)) (Some (Scalar 0)) ''prob'' (Some [2, 0])
   = Inr (PMat [[exp (- 1) / (2 - 2 * exp (- 1)), 0], [exp (- 1) / (2 - 2 * exp (- 1)), 0],
                [exp (- 1) / (2 - 2 * exp (- 1)), 0]])"
  by (simp add: trunc_predict_def example_hurdle_pp_stages TruncatedPoisson_predict_def
      ext_fields count_get_predict_arrays_def arr_map_def linpred_of_def ncols_def dot_def
      row_dot_def add_arr_def counts_of_def truncpoisson_pmf_def poisson_pmf_def upto_0_0
      Let_def eval_nat_numeral)

text \<open>
  Claim C7: for a requested set of counts that includes 0, the column of count 0 of
  \<^verbatim>\<open>predict(which='prob')\<close> is to be \<open>prob_zero\<close>. The code overwrites the column at
  \<^emph>\<open>index\<close> 0, whatever count stands there. On the hurdle model with Poisson stages (as
  \<open>Hurdle_init\<close> builds it) at \<open>params = [0, 0]\<close> and the requested counts \<open>2, 0\<close>, the
  probability of a zero is \<open>e\<^sup>-\<^sup>1\<close>, but the matrix returned has 0 in the column of count 0
  and \<open>e\<^sup>-\<^sup>1\<close> in the column of count 2.
\<close>

theorem hurdle_prob_overwrites_first_column:
  "Hurdle_predict (example_ext rest pmf) (example_hurdle_pp (example_ext rest pmf))
     [0, 0] None None None None ''prob'' (Some [2, 0])
     = Inr (PMat [[exp (- 1), 0], [exp (- 1), 0], [exp (- 1), 0]])
   \<and> Hurdle_predict (example_ext rest pmf) (example_hurdle_pp (example_ext rest pmf))
     [0, 0] None None None None ''prob-zero'' (Some [2, 0])
     = Inr (PVec [exp (- 1), exp (- 1), exp (- 1)])"
proof -
  have k: "py_int 1 = 1" by (simp add: py_int_def)
  have f: "k_extra1 (example_hurdle_pp (example_ext rest pmf)) = 0"
    "k_extra2 (example_hurdle_pp (example_ext rest pmf)) = 0"
    "exog (example_hurdle_pp (example_ext rest pmf)) = [[1], [1], [1]]"
    by (simp_all add: example_hurdle_pp_def)
  have g: "count_get_predict_arrays
             (as_count_model (example_hurdle_pp (example_ext rest pmf))) None None None
           = ([[1], [1], [1]], Scalar 0, Scalar 0)"
    by (simp add: count_get_predict_arrays_def as_count_model_def example_hurdle_pp_def)
  have s: "slice_to 1 [0, 0 :: real] = [0]" "slice_from 1 [0, 0 :: real] = [0]"
    by (simp_all add: slice_to_def slice_from_def)
  have a: "Hurdle_predict (example_ext rest pmf) (example_hurdle_pp (example_ext rest pmf))
     [0, 0] None None None None ''prob'' (Some [2, 0])
     = Inr (PMat [[exp (- 1), 0], [exp (- 1), 0], [exp (- 1), 0]])"
    by (simp add: Hurdle_predict_def Let_def f g k s ext_fields example_hurdle_pp_stages
        lower_def lower_char_def
        ncols_def dot_def row_dot_def add_arr_def count_predict_def arr_map_def
        Poisson_class_def poisson_prob_nonzero_def example_truncated_prob set_col0_def
        row_scale_def)
  have b: "Hurdle_predict (example_ext rest pmf) (example_hurdle_pp (example_ext rest pmf))
     [0, 0] None None None None ''prob-zero'' (Some [2, 0])
     = Inr (PVec [exp (- 1), exp (- 1), exp (- 1)])"
    by (simp add: Hurdle_predict_def Let_def f g k s ext_fields example_hurdle_pp_stages
        lower_def lower_char_def
        ncols_def dot_def row_dot_def add_arr_def count_predict_def arr_map_def
        Poisson_class_def poisson_prob_nonzero_def)
  from a b show ?thesis by blast
qed

end
